theory Spec2Isabelle
  imports Complex_Main "HOL-Library.Multiset"
begin

section \<open>Elimination bracket: recursive halving\<close>

text \<open>
  The first elimination round of \<^verbatim>\<open>generateElimPairingsBeforeAffNegOrder\<close>
  builds its bracket with the local recursive function \<^verbatim>\<open>generateBracketPairings\<close>.
  Seeds are array indices (seed number minus one), hence naturals.

  The loop \<^verbatim>\<open>for (let i = 0; i < half; i++)\<close> with \<^verbatim>\<open>half = seeds.length / 2\<close>
  runs for the indices below \<open>(length seeds + 1) div 2\<close> (the division of the
  source is not rounded). Index \<open>i\<close> pushes \<^verbatim>\<open>seeds[i]\<close> and
  \<^verbatim>\<open>seeds[seeds.length - 1 - i]\<close> onto the top half when \<open>i mod 4\<close> is 0 or 3, and
  onto the bottom half otherwise.
\<close>

definition halfIndices :: "nat list \<Rightarrow> nat list" where
  "halfIndices seeds = [0..<(length seeds + 1) div 2]"

definition inTop :: "nat \<Rightarrow> bool" where
  "inTop i = (i mod 4 = 0 \<or> i mod 4 = 3)"

definition pickHalf :: "(nat \<Rightarrow> bool) \<Rightarrow> nat list \<Rightarrow> nat list" where
  "pickHalf sel seeds =
     concat (map (\<lambda>i. [seeds ! i, seeds ! (length seeds - 1 - i)])
                 (filter sel (halfIndices seeds)))"

definition topHalf :: "nat list \<Rightarrow> nat list" where
  "topHalf seeds = pickHalf inTop seeds"

definition bottomHalf :: "nat list \<Rightarrow> nat list" where
  "bottomHalf seeds = pickHalf (\<lambda>i. \<not> inTop i) seeds"

text \<open>
  The recursion of the source has no case for fewer than two seeds: on such a list it
  calls itself on an empty half for ever. Not returning is the value \<open>None\<close>.
\<close>

partial_function (option) generateBracketPairings :: "nat list \<Rightarrow> (nat \<times> nat) list option" where
  "generateBracketPairings seeds =
     (if length seeds = 2 then Some [(seeds ! 0, seeds ! 1)]
      else Option.bind (generateBracketPairings (sort (topHalf seeds))) (\<lambda>topPairings.
           Option.bind (generateBracketPairings (sort (bottomHalf seeds))) (\<lambda>bottomPairings.
           Some (topPairings @ rev bottomPairings))))"

declare generateBracketPairings.simps [code]

text \<open>
  After the recursion the source builds \<^verbatim>\<open>allPairingsSwapped\<close>, calling
  \<^verbatim>\<open>allPairings[p].reverse()\<close> for every odd \<open>p\<close>. \<^verbatim>\<open>reverse\<close> works in place, so
  the pair stored in \<^verbatim>\<open>allPairings\<close> is turned round as well, and the loop that
  creates the team pairs from \<^verbatim>\<open>allPairings\<close> sees the pairs at odd positions with
  their components exchanged.
\<close>

fun swapOddFrom :: "nat \<Rightarrow> ('a \<times> 'a) list \<Rightarrow> ('a \<times> 'a) list" where
  "swapOddFrom p [] = []"
| "swapOddFrom p ((a, b) # ps) =
     (if p mod 2 = 0 then (a, b) else (b, a)) # swapOddFrom (Suc p) ps"

definition firstRoundIndexPairs :: "nat \<Rightarrow> (nat \<times> nat) list option" where
  "firstRoundIndexPairs n =
     map_option (swapOddFrom 0) (generateBracketPairings [0..<n])"

section \<open>Tournament manager: data model\<close>

text \<open>
  The model follows the class \<^verbatim>\<open>TournamentManager\<close> in its local mode (no
  \<^verbatim>\<open>backendUrl\<close>). JavaScript numbers that count or identify are integers; speaker
  points are finite binary64 numbers, each kept as the rational it denotes, and added
  with the rounding of the source (section on JavaScript numbers). A
  nullable value is an \<open>option\<close>. The judge registry is left out: of the judges only
  the \<^verbatim>\<open>judge_id\<close> stored in a match is read by the operations modelled here.
\<close>

datatype side = Aff | Neg

record member =
  member_name :: string
  member_id :: nat

text \<open>An entry \<^verbatim>\<open>{round, points}\<close> of \<^verbatim>\<open>speaker_points_history\<close>.\<close>

record sp_entry =
  entry_round :: int
  entry_points :: "rat option list"

text \<open>The argument \<^verbatim>\<open>{affPoints, negPoints}\<close> of the speaker point operations.\<close>

record speaker_points_arg =
  affPoints :: "rat option list"
  negPoints :: "rat option list"

text \<open>
  \<^verbatim>\<open>side_history\<close> is an object from opponent ids to lists of sides, kept as the list
  of its entries. Every read in the source is \<^verbatim>\<open>side_history[id] || []\<close>
  (\<open>sidesAgainst\<close> below) and every write first creates the missing list and then
  pushes a side (\<open>pushSide\<close>).
\<close>

record team =
  team_id :: int
  team_name :: string
  institution :: string
  members :: "member list"
  wins :: int
  score :: int
  buchholz :: int
  opponents :: "int list"
  aff_count :: int
  neg_count :: int
  last_side :: "side option"
  side_history :: "(int \<times> side list) list"
  break_seed :: "int option"
  speaker_points_history :: "sp_entry list"

text \<open>
  A match. \<^verbatim>\<open>result\<close> is \<^verbatim>\<open>null\<close>, \<^verbatim>\<open>'A'\<close> or \<^verbatim>\<open>'N'\<close>; it is kept as the string the
  source stores.
\<close>

record tmatch =
  match_id :: int
  round_num :: int
  aff_id :: int
  neg_id :: int
  aff_name :: string
  neg_name :: string
  result :: "string option"
  judge_id :: "int option"
  speaker_points :: "speaker_points_arg option"

text \<open>
  The two text logs are modelled as the list of their lines, and a line as its
  fields: a comment line of the initial content, a pairing line
  \<^verbatim>\<open>round match_id aff_id neg_id\<close>, a result line
  \<^verbatim>\<open>round match_id aff_id neg_id outcome\<close> followed by the judge id (missing only
  in a regenerated log) and the speaker point tokens (none, or four), and a line
  commented out by \<^verbatim>\<open>updateResult\<close>
  (\<^verbatim>\<open># line # Updated/Corrected\<close>).
\<close>

datatype log_line =
    Comment_line string
  | Pairing_line int int int int
  | Result_line int int int int string "int option" "rat option list"
  | Commented log_line

record config =
  num_teams :: nat
  num_prelim_rounds :: int
  num_elim_rounds :: nat
  num_rounds :: int

text \<open>The manager: the fields of \<^verbatim>\<open>this.data\<close>, and \<^verbatim>\<open>this.teams\<close>.\<close>

record manager =
  cfg :: config
  current_round :: int
  matches :: "tmatch list"
  next_match_id :: int
  next_judge_id :: int
  pairing_file_content :: "log_line list"
  result_file_content :: "log_line list"
  teams :: "team list"

text \<open>
  What the source throws. The first six are the \<^verbatim>\<open>Error\<close>s of the validation code;
  \<open>RedundancyCheckFailed\<close> is thrown by the consistency check, \<open>TypeError\<close> by a
  property access on \<^verbatim>\<open>undefined\<close>, and \<open>RangeError\<close> by a recursion without end.
\<close>

datatype error =
    RoundNotComplete int
  | RoundAlreadyPaired int
  | NotEnoughTeams
  | MatchNotFound int
  | AlreadyHasResult int
  | InvalidOutcome string
  | SpeakerPointsOutOfRange rat
  | RedundancyCheckFailed
  | TypeError
  | RangeError

text \<open>
  An operation returns its value or the error it threw, together with the manager as
  the call left it: a \<^verbatim>\<open>throw\<close> does not undo the assignments made before it.
\<close>

type_synonym 'a res = "(error + 'a) \<times> manager"

text \<open>
  The two uses of \<^verbatim>\<open>Math.random\<close>. \<open>draw i\<close> stands for the value
  \<^verbatim>\<open>Math.floor(Math.random() * (i + 1))\<close> drawn at index \<open>i\<close> of the shuffle, reduced
  modulo \<open>i + 1\<close> where it is used; \<open>coin n\<close> is the outcome of
  \<^verbatim>\<open>Math.random() < 0.5\<close> in the call of \<^verbatim>\<open>determineSides\<close> that produces the pair
  number \<open>n\<close> of a round.
\<close>

record rnd =
  draw :: "nat \<Rightarrow> nat"
  coin :: "nat \<Rightarrow> bool"

subsection \<open>Helpers of the embedding\<close>

text \<open>
  A team object is referred to by its position in \<^verbatim>\<open>this.teams\<close>.
  \<^verbatim>\<open>this.teams.find(t => t.id === i)\<close> is the first position with that id.
\<close>

fun findTeamFrom :: "nat \<Rightarrow> team list \<Rightarrow> int \<Rightarrow> nat option" where
  "findTeamFrom k [] i = None"
| "findTeamFrom k (t # ts) i = (if team_id t = i then Some k else findTeamFrom (Suc k) ts i)"

definition findTeam :: "team list \<Rightarrow> int \<Rightarrow> nat option" where
  "findTeam ts i = findTeamFrom 0 ts i"

definition sidesAgainst :: "team \<Rightarrow> int \<Rightarrow> side list" where
  "sidesAgainst t i = (case map_of (side_history t) i of None \<Rightarrow> [] | Some sides \<Rightarrow> sides)"

fun pushSide :: "int \<Rightarrow> side \<Rightarrow> (int \<times> side list) list \<Rightarrow> (int \<times> side list) list" where
  "pushSide i sd [] = [(i, [sd])]"
| "pushSide i sd ((k, sides) # rest) =
     (if k = i then (k, sides @ [sd]) # rest else (k, sides) # pushSide i sd rest)"

definition modify :: "nat \<Rightarrow> ('a \<Rightarrow> 'a) \<Rightarrow> 'a list \<Rightarrow> 'a list" where
  "modify k f xs = xs[k := f (xs ! k)]"

text \<open>
  \<^verbatim>\<open>Array.prototype.sort\<close> with a comparator is stable. For a comparator that is a
  total preorder its result is the stable sorted permutation, computed here by
  insertion from the right.
\<close>

fun insort_by :: "('a \<Rightarrow> 'a \<Rightarrow> 'b::{zero,ord}) \<Rightarrow> 'a \<Rightarrow> 'a list \<Rightarrow> 'a list" where
  "insort_by cmp x [] = [x]"
| "insort_by cmp x (y # ys) = (if cmp x y \<le> 0 then x # y # ys else y # insort_by cmp x ys)"

definition sort_by :: "('a \<Rightarrow> 'a \<Rightarrow> 'b::{zero,ord}) \<Rightarrow> 'a list \<Rightarrow> 'a list" where
  "sort_by cmp xs = foldr (insort_by cmp) xs []"

text \<open>\<^verbatim>\<open>find\<close> on the matches by match id: the position of the first such match.\<close>

fun findMatchFrom :: "nat \<Rightarrow> tmatch list \<Rightarrow> int \<Rightarrow> nat option" where
  "findMatchFrom k [] i = None"
| "findMatchFrom k (m # ms) i = (if match_id m = i then Some k else findMatchFrom (Suc k) ms i)"

definition findMatch :: "tmatch list \<Rightarrow> int \<Rightarrow> nat option" where
  "findMatch ms i = findMatchFrom 0 ms i"

text \<open>
  \<^verbatim>\<open>xs[i]\<close> on an array of nullable values: \<^verbatim>\<open>undefined\<close> out of range. The source
  treats \<^verbatim>\<open>undefined\<close> and \<^verbatim>\<open>null\<close> alike wherever it reads such an array.
\<close>

definition nth_opt :: "'a option list \<Rightarrow> nat \<Rightarrow> 'a option" where
  "nth_opt xs i = (if i < length xs then xs ! i else None)"

text \<open>Decimal digits of a number, for the default names \<^verbatim>\<open>Team 1\<close>, \<^verbatim>\<open>Team 2\<close>, ...\<close>

definition digit_char :: "nat \<Rightarrow> char" where
  "digit_char d = char_of (48 + d)"

function string_of_nat :: "nat \<Rightarrow> string" where
  "string_of_nat n = (if n < 10 then [digit_char n] else string_of_nat (n div 10) @ [digit_char (n mod 10)])"
  by pat_completeness auto
termination
  by (relation "measure (\<lambda>n. n)") auto

section \<open>Tournament manager: initialisation and pairing\<close>

subsection \<open>\<^verbatim>\<open>init\<close>\<close>

text \<open>
  An element of \<^verbatim>\<open>teamDetails\<close>; an absent or empty name or institution is the empty
  string, absent members are the empty list.
\<close>

record team_detail =
  detail_name :: string
  detail_institution :: string
  detail_members :: "string list"

definition defaultMembers :: "member list" where
  "defaultMembers =
     [\<lparr>member_name = ''Member 1'', member_id = 1\<rparr>, \<lparr>member_name = ''Member 2'', member_id = 2\<rparr>]"

text \<open>The constructor of \<^verbatim>\<open>Team\<close>.\<close>

definition newTeam :: "int \<Rightarrow> string \<Rightarrow> string \<Rightarrow> member list \<Rightarrow> team" where
  "newTeam i nm inst mems =
     \<lparr>team_id = i, team_name = nm,
      institution = (if inst = [] then ''Unknown'' else inst),
      members = (if length mems = 2 then mems else defaultMembers),
      wins = 0, score = 0, buchholz = 0, opponents = [], aff_count = 0, neg_count = 0,
      last_side = None, side_history = [], break_seed = None,
      speaker_points_history = []\<rparr>"

definition initTeam :: "team_detail list \<Rightarrow> nat \<Rightarrow> team" where
  "initTeam teamDetails i =
     (let detail = (if i < length teamDetails then teamDetails ! i
                    else \<lparr>detail_name = [], detail_institution = [], detail_members = []\<rparr>);
          nm = (if detail_name detail = [] then ''Team '' @ string_of_nat (i + 1)
                else detail_name detail);
          inst = (if detail_institution detail = [] then ''Unknown''
                  else detail_institution detail);
          mems = (if length (detail_members detail) = 2
                  then map (\<lambda>(idx, m). \<lparr>member_name = (if m = [] then ''Member '' @ string_of_nat (idx + 1) else m),
                                          member_id = idx + 1\<rparr>)
                           (enumerate 0 (detail_members detail))
                  else defaultMembers)
      in newTeam (int i) nm inst mems)"

definition init :: "nat \<Rightarrow> int \<Rightarrow> nat \<Rightarrow> team_detail list \<Rightarrow> manager" where
  "init numTeams numPrelimRounds numElimRounds teamDetails =
     \<lparr>cfg = \<lparr>num_teams = numTeams, num_prelim_rounds = numPrelimRounds,
              num_elim_rounds = numElimRounds,
              num_rounds = numPrelimRounds + int numElimRounds\<rparr>,
      current_round = 0,
      matches = [],
      next_match_id = 1,
      next_judge_id = 1,
      pairing_file_content = [Comment_line ''# Format: Round MatchID AffID NegID''],
      result_file_content =
        [Comment_line ''# Format: Round MatchID AffID NegID Outcome JudgeID [Aff1Pts Aff2Pts Neg1Pts Neg2Pts]'',
         Comment_line ''# JudgeID: Use -1 if no judge assigned''],
      teams = map (initTeam teamDetails) [0..<numTeams]\<rparr>"

subsection \<open>Swiss pairing\<close>

definition updateBuchholz :: "team list \<Rightarrow> team list" where
  "updateBuchholz ts =
     map (\<lambda>t. t\<lparr>buchholz :=
                  sum_list (map (\<lambda>oppId. if oppId = - 1 then 0
                                           else (case findTeam ts oppId of
                                                   None \<Rightarrow> 0
                                                 | Some k \<Rightarrow> score (ts ! k)))
                                (opponents t))\<rparr>) ts"

text \<open>
  \<^verbatim>\<open>shuffleArray\<close>: for \<open>i\<close> from the last index down to 1, exchange the elements at
  \<open>i\<close> and at \<open>j = floor (random * (i + 1))\<close>.
\<close>

primrec shuffleFrom :: "(nat \<Rightarrow> nat) \<Rightarrow> nat \<Rightarrow> 'a list \<Rightarrow> 'a list" where
  "shuffleFrom d 0 xs = xs"
| "shuffleFrom d (Suc i) xs =
     (let j = d (Suc i) mod (Suc i + 1)
      in shuffleFrom d i (xs[Suc i := xs ! j, j := xs ! Suc i]))"

definition shuffleArray :: "(nat \<Rightarrow> nat) \<Rightarrow> 'a list \<Rightarrow> 'a list" where
  "shuffleArray d xs = shuffleFrom d (length xs - 1) xs"

definition calculateSidePreference :: "team \<Rightarrow> int" where
  "calculateSidePreference t =
     (neg_count t - aff_count t)
       + (case last_side t of Some Neg \<Rightarrow> 2 | Some Aff \<Rightarrow> - 2 | None \<Rightarrow> 0)"

text \<open>
  \<^verbatim>\<open>findBestOpponent\<close>: the loop over the candidates, at position \<open>i\<close> with the
  swappable repeat found so far. The result is the index of the opponent in the group
  and \<^verbatim>\<open>isSwappable\<close>.
\<close>

fun findBestOpponentFrom ::
  "team list \<Rightarrow> nat \<Rightarrow> nat list \<Rightarrow> nat \<Rightarrow> nat option \<Rightarrow> (nat \<times> bool) option" where
  "findBestOpponentFrom ts t1 [] i bestSwappable =
     (case bestSwappable of Some j \<Rightarrow> Some (j, True) | None \<Rightarrow> None)"
| "findBestOpponentFrom ts t1 (candidate # rest) i bestSwappable =
     (if team_id (ts ! candidate) \<notin> set (opponents (ts ! t1)) then Some (i, False)
      else findBestOpponentFrom ts t1 rest (Suc i)
             (case bestSwappable of
                Some j \<Rightarrow> Some j
              | None \<Rightarrow>
                  (let t1History = sidesAgainst (ts ! t1) (team_id (ts ! candidate));
                       canPlayAff = (Aff \<notin> set t1History);
                       canPlayNeg = (Neg \<notin> set t1History)
                   in if canPlayAff \<or> canPlayNeg then Some i else None)))"

definition findBestOpponent :: "team list \<Rightarrow> nat \<Rightarrow> nat list \<Rightarrow> (nat \<times> bool) option" where
  "findBestOpponent ts t1 grp = findBestOpponentFrom ts t1 grp 0 None"

definition determineSides :: "team list \<Rightarrow> bool \<Rightarrow> nat \<Rightarrow> nat \<Rightarrow> bool \<Rightarrow> nat \<times> nat" where
  "determineSides ts c t1 t2 isSwappable =
     (let t1History = sidesAgainst (ts ! t1) (team_id (ts ! t2));
          canPlayAff = (Aff \<notin> set t1History);
          canPlayNeg = (Neg \<notin> set t1History);
          t1Pref = calculateSidePreference (ts ! t1);
          t2Pref = calculateSidePreference (ts ! t2)
      in if isSwappable \<and> canPlayAff \<and> \<not> canPlayNeg then (t1, t2)
         else if isSwappable \<and> canPlayNeg \<and> \<not> canPlayAff then (t2, t1)
         else if t1Pref > t2Pref then (t1, t2)
         else if t2Pref > t1Pref then (t2, t1)
         else if c then (t1, t2) else (t2, t1))"

definition removeAt :: "nat \<Rightarrow> 'a list \<Rightarrow> 'a list" where
  "removeAt i xs = take i xs @ drop (Suc i) xs"

text \<open>The \<^verbatim>\<open>while (group.length > 0)\<close> loop of one score bracket.\<close>

function pairGroup ::
  "team list \<Rightarrow> (nat \<Rightarrow> bool) \<Rightarrow> nat list \<Rightarrow> (nat \<times> nat) list \<Rightarrow> nat list
     \<Rightarrow> (nat \<times> nat) list \<times> nat list" where
  "pairGroup ts cn [] pairs floaters = (pairs, floaters)"
| "pairGroup ts cn (t1 # grp) pairs floaters =
     (case findBestOpponent ts t1 grp of
        Some (index, isSwappable) \<Rightarrow>
          pairGroup ts cn (removeAt index grp)
            (pairs @ [determineSides ts (cn (length pairs)) t1 (grp ! index) isSwappable])
            floaters
      | None \<Rightarrow> pairGroup ts cn grp pairs (floaters @ [t1]))"
  by pat_completeness auto
termination
  by (relation "measure (\<lambda>(ts, cn, grp, pairs, floaters). length grp)")
     (auto simp: removeAt_def)

text \<open>The comparator of the sort inside a bracket (rounds 3 and later).\<close>

definition bracketCmp :: "team list \<Rightarrow> nat \<Rightarrow> nat \<Rightarrow> int" where
  "bracketCmp ts a b =
     (if buchholz (ts ! b) \<noteq> buchholz (ts ! a) then buchholz (ts ! b) - buchholz (ts ! a)
      else team_id (ts ! a) - team_id (ts ! b))"

text \<open>The loop over the score brackets, highest score first.\<close>

fun pairBrackets ::
  "team list \<Rightarrow> (nat \<Rightarrow> bool) \<Rightarrow> int \<Rightarrow> nat list list \<Rightarrow> (nat \<times> nat) list \<Rightarrow> nat list
     \<Rightarrow> (nat \<times> nat) list \<times> nat list" where
  "pairBrackets ts cn roundNum [] pairs floaters = (pairs, floaters)"
| "pairBrackets ts cn roundNum (g # gs) pairs floaters =
     (let grp = g @ floaters;
          sorted_grp = (if roundNum > 2 then sort_by (bracketCmp ts) grp else grp);
          (pairs', floaters') = pairGroup ts cn sorted_grp pairs []
      in pairBrackets ts cn roundNum gs pairs' floaters')"

text \<open>
  \<^verbatim>\<open>scoreGroups\<close>: in rounds 1 and 2 one group under the key 0; later one group per
  score, each in shuffled order, taken by descending score.
\<close>

definition scoreGroups :: "team list \<Rightarrow> int \<Rightarrow> nat list \<Rightarrow> nat list list" where
  "scoreGroups ts roundNum shuffled =
     (if roundNum > 2
      then map (\<lambda>k. filter (\<lambda>t. score (ts ! t) = k) shuffled)
               (rev (sort (remdups (map (\<lambda>t. score (ts ! t)) shuffled))))
      else [shuffled])"

text \<open>The floaters left after the last bracket: paired two by two; one left over is the bye.\<close>

fun drainFloaters ::
  "team list \<Rightarrow> (nat \<Rightarrow> bool) \<Rightarrow> nat list \<Rightarrow> (nat \<times> nat) list \<Rightarrow> (nat \<times> nat) list \<times> nat option" where
  "drainFloaters ts cn (t1 # t2 # rest) pairs =
     drainFloaters ts cn rest (pairs @ [determineSides ts (cn (length pairs)) t1 t2 False])"
| "drainFloaters ts cn [byeTeam] pairs = (pairs, Some byeTeam)"
| "drainFloaters ts cn [] pairs = (pairs, None)"

definition awardBye :: "nat option \<Rightarrow> team list \<Rightarrow> team list" where
  "awardBye bye ts =
     (case bye of
        None \<Rightarrow> ts
      | Some b \<Rightarrow> modify b (\<lambda>t. t\<lparr>score := score t + 1, opponents := opponents t @ [- 1]\<rparr>) ts)"

text \<open>
  The pairing up to the bye: the pairs and the team left over, both as positions in
  \<^verbatim>\<open>this.teams\<close>, computed on the teams with their Buchholz scores updated.
\<close>

definition swissPairs :: "rnd \<Rightarrow> int \<Rightarrow> team list \<Rightarrow> (nat \<times> nat) list \<times> nat option" where
  "swissPairs r roundNum ts =
     (let shuffled = shuffleArray (draw r) [0..<length ts];
          (pairs, floaters) = pairBrackets ts (coin r) roundNum (scoreGroups ts roundNum shuffled) [] []
      in drainFloaters ts (coin r) floaters pairs)"

text \<open>\<^verbatim>\<open>generateSwissPairings\<close>: the pairs it returns and the teams as it leaves them.\<close>

definition generateSwissPairings :: "rnd \<Rightarrow> int \<Rightarrow> team list \<Rightarrow> (nat \<times> nat) list \<times> team list" where
  "generateSwissPairings r roundNum ts0 =
     (let ts = updateBuchholz ts0;
          (pairs, bye) = swissPairs r roundNum ts
      in (pairs, awardBye bye ts))"

text \<open>The teams of a list of pairs, and the team with a bye, as lists of positions.\<close>

definition pairedTeams :: "(nat \<times> nat) list \<Rightarrow> nat list" where
  "pairedTeams pairs = concat (map (\<lambda>(aff, neg). [aff, neg]) pairs)"

definition byeTeams :: "nat option \<Rightarrow> nat list" where
  "byeTeams bye = (case bye of None \<Rightarrow> [] | Some b \<Rightarrow> [b])"

subsection \<open>Standings\<close>

text \<open>
  \<^verbatim>\<open>getPreliminaryStandings\<close>: per team the wins over the reported preliminary
  matches and the Buchholz score over the opponents met in them; the teams (as
  positions) sorted by score, Buchholz and wins, each descending.
\<close>

definition involves :: "int \<Rightarrow> tmatch \<Rightarrow> bool" where
  "involves i m = (aff_id m = i \<or> neg_id m = i)"

definition wonBy :: "int \<Rightarrow> tmatch \<Rightarrow> bool" where
  "wonBy i m = (let isAff = (aff_id m = i)
                in (isAff \<and> result m = Some ''A'') \<or> (\<not> isAff \<and> result m = Some ''N''))"

definition prelimWins :: "manager \<Rightarrow> int \<Rightarrow> int" where
  "prelimWins s i =
     int (length (filter (\<lambda>m. round_num m \<le> num_prelim_rounds (cfg s) \<and> involves i m
                              \<and> result m \<noteq> None \<and> wonBy i m) (matches s)))"

definition oppPrelimWins :: "manager \<Rightarrow> int \<Rightarrow> int" where
  "oppPrelimWins s oppId =
     int (length (filter (\<lambda>m. (aff_id m = oppId \<and> result m = Some ''A'')
                              \<or> (neg_id m = oppId \<and> result m = Some ''N''))
                   (filter (\<lambda>m. round_num m \<le> num_prelim_rounds (cfg s) \<and> involves oppId m
                                \<and> result m \<noteq> None) (matches s))))"

definition prelimBuchholz :: "manager \<Rightarrow> int \<Rightarrow> int" where
  "prelimBuchholz s i =
     sum_list (map (\<lambda>m. let oppId = (if aff_id m = i then neg_id m else aff_id m)
                         in (case findTeam (teams s) oppId of
                               None \<Rightarrow> 0
                             | Some _ \<Rightarrow> oppPrelimWins s oppId))
                   (filter (\<lambda>m. round_num m \<le> num_prelim_rounds (cfg s) \<and> involves i m
                                \<and> result m \<noteq> None) (matches s)))"

definition prelimCmp :: "manager \<Rightarrow> nat \<Rightarrow> nat \<Rightarrow> int" where
  "prelimCmp s a b =
     (let ia = team_id (teams s ! a); ib = team_id (teams s ! b)
      in if prelimWins s ib \<noteq> prelimWins s ia then prelimWins s ib - prelimWins s ia
         else if prelimBuchholz s ib \<noteq> prelimBuchholz s ia
              then prelimBuchholz s ib - prelimBuchholz s ia
         else prelimWins s ib - prelimWins s ia)"

definition getPreliminaryStandings :: "manager \<Rightarrow> nat list" where
  "getPreliminaryStandings s = sort_by (prelimCmp s) [0..<length (teams s)]"

definition standingsCmp :: "team list \<Rightarrow> nat \<Rightarrow> nat \<Rightarrow> int" where
  "standingsCmp ts a b =
     (if score (ts ! b) \<noteq> score (ts ! a) then score (ts ! b) - score (ts ! a)
      else if buchholz (ts ! b) \<noteq> buchholz (ts ! a) then buchholz (ts ! b) - buchholz (ts ! a)
      else wins (ts ! b) - wins (ts ! a))"

definition getStandings :: "manager \<Rightarrow> nat list" where
  "getStandings s = sort_by (standingsCmp (teams s)) [0..<length (teams s)]"

subsection \<open>Elimination pairing\<close>

text \<open>
  The value of \<^verbatim>\<open>break_seed\<close> in arithmetic: \<^verbatim>\<open>null\<close> counts as 0.
\<close>

definition seedValue :: "team \<Rightarrow> int" where
  "seedValue t = (case break_seed t of None \<Rightarrow> 0 | Some b \<Rightarrow> b)"

definition seedCmp :: "team list \<Rightarrow> nat \<Rightarrow> nat \<Rightarrow> int" where
  "seedCmp ts a b = seedValue (ts ! a) - seedValue (ts ! b)"

text \<open>
  The team object found for the id of the team at position \<open>k\<close>: the first team with
  that id (the search cannot fail, the team itself has the id).
\<close>

definition refOf :: "team list \<Rightarrow> nat \<Rightarrow> nat" where
  "refOf ts k = (case findTeam ts (team_id (ts ! k)) of Some j \<Rightarrow> j | None \<Rightarrow> k)"

text \<open>\<^verbatim>\<open>activeTeams.forEach((team, index) => team.break_seed = index + 1)\<close>.\<close>

fun assignSeeds :: "nat \<Rightarrow> nat list \<Rightarrow> team list \<Rightarrow> team list" where
  "assignSeeds i [] ts = ts"
| "assignSeeds i (k # ks) ts =
     assignSeeds (Suc i) ks (modify k (\<lambda>t. t\<lparr>break_seed := Some (int i + 1)\<rparr>) ts)"

text \<open>The winners of the matches of a round, in the order of the match records.\<close>

definition winnerOf :: "team list \<Rightarrow> tmatch \<Rightarrow> nat option" where
  "winnerOf ts m = (if result m = Some ''A'' then findTeam ts (aff_id m) else findTeam ts (neg_id m))"

text \<open>
  The loop \<^verbatim>\<open>for (let i = 0; i < numPairs; i++)\<close> with
  \<^verbatim>\<open>numPairs = activeTeams.length / 2\<close>: the teams two by two; with an odd number
  the last pair holds \<^verbatim>\<open>undefined\<close>.
\<close>

fun pairSequential :: "'a option list \<Rightarrow> ('a option \<times> 'a option) list" where
  "pairSequential (team1 # team2 # rest) = (team1, team2) # pairSequential rest"
| "pairSequential [team1] = [(team1, None)]"
| "pairSequential [] = []"

definition generateElimPairingsBeforeAffNegOrder ::
  "int \<Rightarrow> manager \<Rightarrow> (nat option \<times> nat option) list res" where
  "generateElimPairingsBeforeAffNegOrder roundNum s =
     (let elimRoundIdx = roundNum - num_prelim_rounds (cfg s);
          breakSize = (2::nat) ^ num_elim_rounds (cfg s);
          ts = teams s
      in if length ts < breakSize then (Inl NotEnoughTeams, s)
         else if elimRoundIdx = 1 then
           (let teamsWithSeeds =
                  filter (\<lambda>k. case break_seed (ts ! k) of None \<Rightarrow> False | Some b \<Rightarrow> b \<le> int breakSize)
                         [0..<length ts];
                (activeTeams, s1) =
                  (if length teamsWithSeeds = breakSize then (sort_by (seedCmp ts) teamsWithSeeds, s)
                   else (let active = map (refOf ts) (take breakSize (getPreliminaryStandings s))
                         in (active, s\<lparr>teams := assignSeeds 0 active ts\<rparr>)))
            in (case firstRoundIndexPairs (length activeTeams) of
                  None \<Rightarrow> (Inl RangeError, s1)
                | Some allPairings \<Rightarrow>
                    (Inr (map (\<lambda>(highIdx, lowIdx). (Some (activeTeams ! highIdx), Some (activeTeams ! lowIdx)))
                              allPairings), s1)))
         else
           (let prevRound = roundNum - 1;
                prevMatches = filter (\<lambda>m. round_num m = prevRound) (matches s)
            in if list_ex (\<lambda>m. result m = None) prevMatches then (Inl (RoundNotComplete prevRound), s)
               else (Inr (pairSequential (map (winnerOf ts) prevMatches)), s)))"

text \<open>
  \<^verbatim>\<open>generateElimPairings\<close>: \<^verbatim>\<open>determineSides\<close> on every pair; on a pair that holds
  \<^verbatim>\<open>undefined\<close> the property access in \<^verbatim>\<open>calculateSidePreference\<close> throws.
\<close>

fun sidesForPairs ::
  "team list \<Rightarrow> (nat \<Rightarrow> bool) \<Rightarrow> nat \<Rightarrow> (nat option \<times> nat option) list \<Rightarrow> error + (nat \<times> nat) list" where
  "sidesForPairs ts cn i [] = Inr []"
| "sidesForPairs ts cn i ((Some t1, Some t2) # rest) =
     (case sidesForPairs ts cn (Suc i) rest of
        Inl e \<Rightarrow> Inl e
      | Inr match_pairs \<Rightarrow> Inr (determineSides ts (cn i) t1 t2 False # match_pairs))"
| "sidesForPairs ts cn i (_ # rest) = Inl TypeError"

definition generateElimPairings :: "rnd \<Rightarrow> int \<Rightarrow> manager \<Rightarrow> (nat \<times> nat) list res" where
  "generateElimPairings r roundNum s =
     (case generateElimPairingsBeforeAffNegOrder roundNum s of
        (Inl e, s1) \<Rightarrow> (Inl e, s1)
      | (Inr pairs, s1) \<Rightarrow>
          (case sidesForPairs (teams s1) (coin r) 0 pairs of
             Inl e \<Rightarrow> (Inl e, s1)
           | Inr match_pairs \<Rightarrow> (Inr match_pairs, s1)))"

text \<open>
  The older copy of the manager in \<^verbatim>\<open>docs/manager/tournament.js\<close> has its own
  \<^verbatim>\<open>generateElimPairings\<close>. It seeds the first elimination round from
  \<^verbatim>\<open>getStandings\<close>, and in the later rounds it sorts the winners by their break seed
  before it pairs them. \<^verbatim>\<open>sort\<close> moves \<^verbatim>\<open>undefined\<close> elements to the end.
\<close>

definition sortWinnersBySeed :: "team list \<Rightarrow> nat option list \<Rightarrow> nat option list" where
  "sortWinnersBySeed ts ws =
     map Some (sort_by (seedCmp ts) (concat (map (\<lambda>w. case w of None \<Rightarrow> [] | Some k \<Rightarrow> [k]) ws)))
       @ filter (\<lambda>w. w = None) ws"

definition generateElimPairings_docs :: "rnd \<Rightarrow> int \<Rightarrow> manager \<Rightarrow> (nat \<times> nat) list res" where
  "generateElimPairings_docs r roundNum s =
     (let elimRoundIdx = roundNum - num_prelim_rounds (cfg s);
          breakSize = (2::nat) ^ num_elim_rounds (cfg s);
          ts = teams s
      in if length ts < breakSize then (Inl NotEnoughTeams, s)
         else if elimRoundIdx = 1 then
           (let activeTeams = take breakSize (getStandings s);
                s1 = s\<lparr>teams := assignSeeds 0 activeTeams ts\<rparr>
            in (case firstRoundIndexPairs (length activeTeams) of
                  None \<Rightarrow> (Inl RangeError, s1)
                | Some allPairingsSwapped \<Rightarrow>
                    (case sidesForPairs (teams s1) (coin r) 0
                            (map (\<lambda>(highIdx, lowIdx). (Some (activeTeams ! highIdx), Some (activeTeams ! lowIdx)))
                                 allPairingsSwapped) of
                       Inl e \<Rightarrow> (Inl e, s1)
                     | Inr pairs \<Rightarrow> (Inr pairs, s1))))
         else
           (let prevRound = roundNum - 1;
                prevMatches = filter (\<lambda>m. round_num m = prevRound) (matches s)
            in if list_ex (\<lambda>m. result m = None) prevMatches then (Inl (RoundNotComplete prevRound), s)
               else (case sidesForPairs ts (coin r) 0
                            (pairSequential (sortWinnersBySeed ts (map (winnerOf ts) prevMatches))) of
                       Inl e \<Rightarrow> (Inl e, s)
                     | Inr pairs \<Rightarrow> (Inr pairs, s))))"

section \<open>Tournament manager: consistency check and statistics\<close>

subsection \<open>\<^verbatim>\<open>saveToStorage\<close> and \<^verbatim>\<open>checkConsistency\<close>\<close>

text \<open>
  The lines the validators read: neither blank nor starting with \<^verbatim>\<open>#\<close>; and the first
  four fields of such a line.
\<close>

fun activeLine :: "log_line \<Rightarrow> bool" where
  "activeLine (Pairing_line r mid a n) = True"
| "activeLine (Result_line r mid a n out j pts) = True"
| "activeLine _ = False"

fun lineFields :: "log_line \<Rightarrow> (int \<times> int \<times> int \<times> int) option" where
  "lineFields (Pairing_line r mid a n) = Some (r, mid, a, n)"
| "lineFields (Result_line r mid a n out j pts) = Some (r, mid, a, n)"
| "lineFields _ = None"

fun lineOutcome :: "log_line \<Rightarrow> string option" where
  "lineOutcome (Result_line r mid a n out j pts) = Some out"
| "lineOutcome _ = None"

definition fieldsAgree :: "tmatch list \<Rightarrow> log_line \<Rightarrow> bool" where
  "fieldsAgree ms l =
     (case lineFields l of
        None \<Rightarrow> True
      | Some (r, mid, a, n) \<Rightarrow>
          (case findMatch ms mid of
             None \<Rightarrow> False
           | Some k \<Rightarrow> round_num (ms ! k) = r \<and> aff_id (ms ! k) = a \<and> neg_id (ms ! k) = n))"

text \<open>Both validators return whether the check passes; the source throws when it does not.\<close>

definition validatePairingRedundancy :: "tmatch list \<Rightarrow> log_line list \<Rightarrow> bool" where
  "validatePairingRedundancy ms content =
     (let lines = filter activeLine content
      in length lines = length ms \<and> list_all (fieldsAgree ms) lines)"

text \<open>A line of fewer than five fields (a pairing line) is counted but not compared.\<close>

definition resultAgrees :: "tmatch list \<Rightarrow> log_line \<Rightarrow> bool" where
  "resultAgrees ms l =
     (case lineOutcome l of
        None \<Rightarrow> True
      | Some out \<Rightarrow>
          fieldsAgree ms l \<and>
          (case lineFields l of
             None \<Rightarrow> True
           | Some (r, mid, a, n) \<Rightarrow>
               (case findMatch ms mid of None \<Rightarrow> False | Some k \<Rightarrow> result (ms ! k) = Some out)))"

definition validateResultRedundancy :: "tmatch list \<Rightarrow> log_line list \<Rightarrow> bool" where
  "validateResultRedundancy ms content =
     (let lines = filter activeLine content;
          matchesWithResults = filter (\<lambda>m. result m \<noteq> None) ms
      in length lines = length matchesWithResults \<and> list_all (resultAgrees ms) lines)"

text \<open>
  An empty log is regenerated from the matches (sorted by match id) before the check;
  the regenerated result lines carry no judge id.
\<close>

definition generatePairingFileContent :: "manager \<Rightarrow> log_line list" where
  "generatePairingFileContent s =
     Comment_line ''# Format: Round MatchID AffID NegID''
       # map (\<lambda>m. Pairing_line (round_num m) (match_id m) (aff_id m) (neg_id m))
             (sort_key match_id (matches s))"

definition generateResultFileContent :: "manager \<Rightarrow> log_line list" where
  "generateResultFileContent s =
     Comment_line ''# Format: Round MatchID AffID NegID Outcome''
       # concat (map (\<lambda>m. case result m of
                              None \<Rightarrow> []
                            | Some out \<Rightarrow> [Result_line (round_num m) (match_id m) (aff_id m) (neg_id m) out None []])
                     (sort_key match_id (matches s)))"

definition checkConsistency :: "manager \<Rightarrow> unit res" where
  "checkConsistency s =
     (let s1 = (if pairing_file_content s = []
                then s\<lparr>pairing_file_content := generatePairingFileContent s\<rparr> else s);
          s2 = (if result_file_content s1 = []
                then s1\<lparr>result_file_content := generateResultFileContent s1\<rparr> else s1)
      in if \<not> validatePairingRedundancy (matches s2) (pairing_file_content s2)
         then (Inl RedundancyCheckFailed, s2)
         else if \<not> validateResultRedundancy (matches s2) (result_file_content s2)
         then (Inl RedundancyCheckFailed, s2)
         else (Inr (), s2))"

text \<open>
  \<^verbatim>\<open>saveToStorage\<close> runs the consistency check and then writes the exported data to
  \<^verbatim>\<open>localStorage\<close>; the write is outside the model.
\<close>

definition saveToStorage :: "manager \<Rightarrow> unit res" where
  "saveToStorage s = checkConsistency s"

subsection \<open>\<^verbatim>\<open>recalculateStats\<close>\<close>

definition resetStats :: "team \<Rightarrow> team" where
  "resetStats t =
     t\<lparr>wins := 0, score := 0, buchholz := 0, opponents := [], aff_count := 0, neg_count := 0,
       last_side := None, side_history := []\<rparr>"

text \<open>
  One pass of the loop over the sorted matches. The assignments are made in the order
  of the source, on the two team objects found for the ids of the match; a team that
  is not found makes the first property access on it throw, after the assignments
  before it.
\<close>

definition replayMatch :: "tmatch \<Rightarrow> team list \<Rightarrow> error option \<times> team list" where
  "replayMatch m ts =
     (case findTeam ts (aff_id m) of
        None \<Rightarrow> (Some TypeError, ts)
      | Some a \<Rightarrow>
          (case findTeam ts (neg_id m) of
             None \<Rightarrow> (Some TypeError, modify a (\<lambda>t. t\<lparr>aff_count := aff_count t + 1\<rparr>) ts)
           | Some n \<Rightarrow>
               (let affId = team_id (ts ! a); negId = team_id (ts ! n);
                    ts1 = modify a (\<lambda>t. t\<lparr>aff_count := aff_count t + 1\<rparr>) ts;
                    ts2 = modify n (\<lambda>t. t\<lparr>neg_count := neg_count t + 1\<rparr>) ts1;
                    ts3 = modify a (\<lambda>t. t\<lparr>opponents := opponents t @ [negId]\<rparr>) ts2;
                    ts4 = modify n (\<lambda>t. t\<lparr>opponents := opponents t @ [affId]\<rparr>) ts3;
                    ts5 = modify a (\<lambda>t. t\<lparr>last_side := Some Aff\<rparr>) ts4;
                    ts6 = modify n (\<lambda>t. t\<lparr>last_side := Some Neg\<rparr>) ts5;
                    ts7 = modify a (\<lambda>t. t\<lparr>side_history := pushSide negId Aff (side_history t)\<rparr>) ts6;
                    ts8 = modify n (\<lambda>t. t\<lparr>side_history := pushSide affId Neg (side_history t)\<rparr>) ts7;
                    ts9 = (if result m = Some ''A''
                           then modify a (\<lambda>t. t\<lparr>wins := wins t + 1, score := score t + 1\<rparr>) ts8
                           else if result m = Some ''N''
                           then modify n (\<lambda>t. t\<lparr>wins := wins t + 1, score := score t + 1\<rparr>) ts8
                           else ts8)
                in (None, ts9))))"

fun replayAll :: "tmatch list \<Rightarrow> team list \<Rightarrow> error option \<times> team list" where
  "replayAll [] ts = (None, ts)"
| "replayAll (m # ms) ts =
     (case replayMatch m ts of
        (Some e, ts') \<Rightarrow> (Some e, ts')
      | (None, ts') \<Rightarrow> replayAll ms ts')"

text \<open>
  The loop \<^verbatim>\<open>for (let r = 1; r <= num_rounds; r++)\<close> that updates \<^verbatim>\<open>current_round\<close>:
  it starts from the value the field has and stops at the first round that has no
  match or an unreported one.
\<close>

fun updateCurrentRound :: "tmatch list \<Rightarrow> int list \<Rightarrow> int \<Rightarrow> int" where
  "updateCurrentRound ms [] cur = cur"
| "updateCurrentRound ms (r # rs) cur =
     (let roundMatches = filter (\<lambda>m. round_num m = r) ms
      in if roundMatches \<noteq> [] \<and> list_all (\<lambda>m. result m \<noteq> None) roundMatches
         then updateCurrentRound ms rs r
         else cur)"

definition recalculateStats :: "manager \<Rightarrow> unit res" where
  "recalculateStats s =
     (let sortedMatches = sort_key round_num (matches s)
      in (case replayAll sortedMatches (map resetStats (teams s)) of
            (Some e, ts) \<Rightarrow> (Inl e, s\<lparr>teams := ts\<rparr>)
          | (None, ts) \<Rightarrow>
              (Inr (), s\<lparr>teams := updateBuchholz ts,
                         current_round := updateCurrentRound (matches s) [1..num_rounds (cfg s)]
                                            (current_round s)\<rparr>)))"

section \<open>Tournament manager: the operations\<close>

subsection \<open>\<^verbatim>\<open>pairRound\<close>\<close>

definition createMatches :: "team list \<Rightarrow> int \<Rightarrow> int \<Rightarrow> (nat \<times> nat) list \<Rightarrow> tmatch list" where
  "createMatches ts roundNum nextId pairs =
     map (\<lambda>(i, (aff, neg)).
            \<lparr>match_id = nextId + int i, round_num = roundNum,
             aff_id = team_id (ts ! aff), neg_id = team_id (ts ! neg),
             aff_name = team_name (ts ! aff), neg_name = team_name (ts ! neg),
             result = None, judge_id = None, speaker_points = None\<rparr>)
         (enumerate 0 pairs)"

definition pairingLine :: "tmatch \<Rightarrow> log_line" where
  "pairingLine m = Pairing_line (round_num m) (match_id m) (aff_id m) (neg_id m)"

definition roundIncomplete :: "tmatch list \<Rightarrow> int \<Rightarrow> bool" where
  "roundIncomplete ms r = list_ex (\<lambda>m. result m = None) (filter (\<lambda>m. round_num m = r) ms)"

definition pairRound :: "rnd \<Rightarrow> int \<Rightarrow> manager \<Rightarrow> (nat \<times> nat) list res" where
  "pairRound r roundNum s =
     (case (if roundNum > 2 then find (roundIncomplete (matches s)) [1..roundNum - 1] else None) of
        Some r' \<Rightarrow> (Inl (RoundNotComplete r'), s)
      | None \<Rightarrow>
          if filter (\<lambda>m. round_num m = roundNum) (matches s) \<noteq> []
          then (Inl (RoundAlreadyPaired roundNum), s)
          else
            (case (if roundNum \<le> num_prelim_rounds (cfg s)
                   then (let (pairs, ts) = generateSwissPairings r roundNum (teams s)
                         in (Inr pairs, s\<lparr>teams := ts\<rparr>))
                   else generateElimPairings r roundNum s) of
               (Inl e, s1) \<Rightarrow> (Inl e, s1)
             | (Inr pairs, s1) \<Rightarrow>
                 (let newMatches = createMatches (teams s1) roundNum (next_match_id s1) pairs;
                      s2 = s1\<lparr>matches := matches s1 @ newMatches,
                              next_match_id := next_match_id s1 + int (length pairs),
                              pairing_file_content := pairing_file_content s1 @ map pairingLine newMatches\<rparr>
                  in (case saveToStorage s2 of
                        (Inl e, s3) \<Rightarrow> (Inl e, s3)
                      | (Inr _, s3) \<Rightarrow> (Inr pairs, s3)))))"

subsection \<open>\<^verbatim>\<open>updateResult\<close>, \<^verbatim>\<open>storeSpeakerPoints\<close> and \<^verbatim>\<open>reportResult\<close>\<close>

text \<open>The four speaker point tokens of a result line.\<close>

definition spTokens :: "speaker_points_arg \<Rightarrow> rat option list" where
  "spTokens sp = [nth_opt (affPoints sp) 0, nth_opt (affPoints sp) 1,
                  nth_opt (negPoints sp) 0, nth_opt (negPoints sp) 1]"

definition resultLine :: "tmatch \<Rightarrow> string \<Rightarrow> rat option list \<Rightarrow> log_line" where
  "resultLine m outcome toks =
     Result_line (round_num m) (match_id m) (aff_id m) (neg_id m) outcome
       (Some (case judge_id m of Some j \<Rightarrow> j | None \<Rightarrow> - 1)) toks"

text \<open>\<^verbatim>\<open>updateResult\<close> comments out the active lines whose second field is the match id.\<close>

definition commentOut :: "int \<Rightarrow> log_line \<Rightarrow> log_line" where
  "commentOut matchId l =
     (case lineFields l of
        None \<Rightarrow> l
      | Some (r, mid, a, n) \<Rightarrow> if mid = matchId then Commented l else l)"

text \<open>The end of both operations: rebuild the statistics, then save.\<close>

definition recalculateAndSave :: "manager \<Rightarrow> bool res" where
  "recalculateAndSave s =
     (case recalculateStats s of
        (Inl e, s1) \<Rightarrow> (Inl e, s1)
      | (Inr _, s1) \<Rightarrow>
          (case saveToStorage s1 of
             (Inl e, s2) \<Rightarrow> (Inl e, s2)
           | (Inr _, s2) \<Rightarrow> (Inr True, s2)))"

text \<open>
  \<^verbatim>\<open>updateResult\<close> and \<^verbatim>\<open>storeSpeakerPoints\<close> call each other:
  \<^verbatim>\<open>updateResult\<close> stores new speaker points, and \<^verbatim>\<open>storeSpeakerPoints\<close>, on a match
  that has a result, calls \<^verbatim>\<open>updateResult\<close> without speaker points, which then calls
  nothing further. The body of \<^verbatim>\<open>updateResult\<close> is therefore written once, with the
  function it calls to store the points as a parameter.
\<close>

definition updateResultBody ::
  "(int \<Rightarrow> speaker_points_arg \<Rightarrow> manager \<Rightarrow> unit res)
     \<Rightarrow> int \<Rightarrow> string option \<Rightarrow> speaker_points_arg option \<Rightarrow> manager \<Rightarrow> bool res" where
  "updateResultBody store matchId newOutcome speakerPoints s =
     (case findMatch (matches s) matchId of
        None \<Rightarrow> (Inl (MatchNotFound matchId), s)
      | Some k \<Rightarrow>
          (case (case newOutcome of
                   None \<Rightarrow> None
                 | Some out \<Rightarrow> if out \<noteq> ''A'' \<and> out \<noteq> ''N'' then Some out else None) of
             Some bad \<Rightarrow> (Inl (InvalidOutcome bad), s)
           | None \<Rightarrow>
               (let s1 = s\<lparr>matches := modify k (\<lambda>m. m\<lparr>result := newOutcome\<rparr>) (matches s),
                           result_file_content := map (commentOut matchId) (result_file_content s)\<rparr>
                in (case newOutcome of
                      None \<Rightarrow> recalculateAndSave s1
                    | Some out \<Rightarrow>
                        (case speakerPoints of
                           Some sp \<Rightarrow>
                             (case store matchId sp s1 of
                                (Inl e, s2) \<Rightarrow> (Inl e, s2)
                              | (Inr _, s2) \<Rightarrow>
                                  recalculateAndSave
                                    (s2\<lparr>result_file_content :=
                                          result_file_content s2 @ [resultLine (matches s2 ! k) out (spTokens sp)]\<rparr>))
                         | None \<Rightarrow>
                             recalculateAndSave
                               (s1\<lparr>result_file_content :=
                                     result_file_content s1
                                       @ [resultLine (matches s1 ! k) out
                                            (case speaker_points (matches s1 ! k) of
                                               None \<Rightarrow> []
                                             | Some pts \<Rightarrow> spTokens pts)]\<rparr>))))))"

text \<open>\<^verbatim>\<open>updateResult\<close> as \<^verbatim>\<open>storeSpeakerPoints\<close> calls it: without speaker points.\<close>

definition updateResultNoPoints :: "int \<Rightarrow> string option \<Rightarrow> manager \<Rightarrow> bool res" where
  "updateResultNoPoints matchId newOutcome s =
     updateResultBody (\<lambda>_ _ s'. (Inr (), s')) matchId newOutcome None s"

text \<open>The first speaker point that is not \<^verbatim>\<open>null\<close> and lies outside 0 to 30.\<close>

definition badPoint :: "speaker_points_arg \<Rightarrow> rat option" where
  "badPoint sp =
     (case filter (\<lambda>p. case p of None \<Rightarrow> False | Some v \<Rightarrow> v < 0 \<or> v > 30)
                  (affPoints sp @ negPoints sp) of
        [] \<Rightarrow> None
      | p # _ \<Rightarrow> p)"

definition replaceEntry :: "int \<Rightarrow> sp_entry list \<Rightarrow> sp_entry list" where
  "replaceEntry r hist = filter (\<lambda>e. entry_round e \<noteq> r) hist"

text \<open>
  \<^verbatim>\<open>storeSpeakerPoints\<close>. The call of the asynchronous \<^verbatim>\<open>updateResult\<close> at its end is
  not awaited: what it throws is not thrown on, what it assigned stays.
\<close>

definition storeSpeakerPoints :: "int \<Rightarrow> speaker_points_arg \<Rightarrow> manager \<Rightarrow> unit res" where
  "storeSpeakerPoints matchId sp s =
     (case findMatch (matches s) matchId of
        None \<Rightarrow> (Inl (MatchNotFound matchId), s)
      | Some k \<Rightarrow>
          (case badPoint sp of
             Some v \<Rightarrow> (Inl (SpeakerPointsOutOfRange v), s)
           | None \<Rightarrow>
               (let s1 = s\<lparr>matches := modify k (\<lambda>m. m\<lparr>speaker_points := Some sp\<rparr>) (matches s)\<rparr>;
                    m = matches s1 ! k
                in (case findTeam (teams s1) (aff_id m) of
                      None \<Rightarrow> (Inl TypeError, s1)
                    | Some a \<Rightarrow>
                        (let ts1 = modify a (\<lambda>t. t\<lparr>speaker_points_history :=
                                                      replaceEntry (round_num m) (speaker_points_history t)\<rparr>)
                                          (teams s1)
                         in (case findTeam (teams s1) (neg_id m) of
                               None \<Rightarrow> (Inl TypeError, s1\<lparr>teams := ts1\<rparr>)
                             | Some n \<Rightarrow>
                                 (let ts2 = modify n (\<lambda>t. t\<lparr>speaker_points_history :=
                                                               replaceEntry (round_num m) (speaker_points_history t)\<rparr>) ts1;
                                      ts3 = modify a (\<lambda>t. t\<lparr>speaker_points_history :=
                                                               speaker_points_history t
                                                                 @ [\<lparr>entry_round = round_num m, entry_points = affPoints sp\<rparr>]\<rparr>) ts2;
                                      ts4 = modify n (\<lambda>t. t\<lparr>speaker_points_history :=
                                                               speaker_points_history t
                                                                 @ [\<lparr>entry_round = round_num m, entry_points = negPoints sp\<rparr>]\<rparr>) ts3;
                                      s2 = s1\<lparr>teams := ts4\<rparr>
                                  in if result m \<noteq> None
                                     then (Inr (), snd (updateResultNoPoints matchId (result m) s2))
                                     else saveToStorage s2)))))))"

definition updateResult :: "int \<Rightarrow> string option \<Rightarrow> speaker_points_arg option \<Rightarrow> manager \<Rightarrow> bool res" where
  "updateResult matchId newOutcome speakerPoints s =
     updateResultBody storeSpeakerPoints matchId newOutcome speakerPoints s"

definition reportResult :: "int \<Rightarrow> string \<Rightarrow> speaker_points_arg option \<Rightarrow> manager \<Rightarrow> bool res" where
  "reportResult matchId outcome speakerPoints s =
     (case findMatch (matches s) matchId of
        None \<Rightarrow> (Inl (MatchNotFound matchId), s)
      | Some k \<Rightarrow>
          if result (matches s ! k) \<noteq> None then (Inl (AlreadyHasResult matchId), s)
          else if outcome \<noteq> ''A'' \<and> outcome \<noteq> ''N'' then (Inl (InvalidOutcome outcome), s)
          else
            (let s1 = s\<lparr>matches := modify k (\<lambda>m. m\<lparr>result := Some outcome\<rparr>) (matches s)\<rparr>
             in (case speakerPoints of
                   Some sp \<Rightarrow>
                     (case storeSpeakerPoints matchId sp s1 of
                        (Inl e, s2) \<Rightarrow> (Inl e, s2)
                      | (Inr _, s2) \<Rightarrow>
                          recalculateAndSave
                            (s2\<lparr>result_file_content :=
                                  result_file_content s2 @ [resultLine (matches s2 ! k) outcome (spTokens sp)]\<rparr>))
                 | None \<Rightarrow>
                     recalculateAndSave
                       (s1\<lparr>result_file_content :=
                             result_file_content s1
                               @ [resultLine (matches s1 ! k) outcome
                                    (case speaker_points (matches s1 ! k) of
                                       None \<Rightarrow> []
                                     | Some pts \<Rightarrow> spTokens pts)]\<rparr>))))"

section \<open>JavaScript numbers\<close>

text \<open>
  Speaker points are JavaScript numbers, that is IEEE 754 binary64 values. A finite
  number is modelled by the rational it denotes. The sum and the difference of two
  numbers are the exact result rounded to 53 significant bits, a tie going to the even
  significand. The range of the exponent is not modelled: sums of points between 0 and
  30 do not overflow, and a sum or a difference of two binary64 numbers that lies below
  the normal range is exact in both. \<^verbatim>\<open>NaN\<close> is not modelled.
\<close>

text \<open>The number of binary digits of a positive integer.\<close>

function bitLength :: "int \<Rightarrow> nat" where
  "bitLength a = (if a \<le> 0 then 0 else Suc (bitLength (a div 2)))"
  by pat_completeness auto
termination
  by (relation "measure nat") auto

declare bitLength.simps [simp del]

text \<open>The exponent \<open>e\<close> with \<open>2 ^ e \<le> x < 2 ^ (e + 1)\<close> of a positive \<open>x\<close>.\<close>

definition floorLog2 :: "rat \<Rightarrow> int" where
  "floorLog2 x =
     (let (a, b) = quotient_of x;
          d = int (bitLength a) - int (bitLength b)
      in if 2 powi d \<le> x then d else d - 1)"

definition roundHalfEven :: "rat \<Rightarrow> int" where
  "roundHalfEven q =
     (let n = \<lfloor>q\<rfloor>; r = q - of_int n
      in if r < 1 / 2 then n else if 1 / 2 < r then n + 1 else if even n then n else n + 1)"

definition round53 :: "rat \<Rightarrow> rat" where
  "round53 x =
     (if x = 0 then 0
      else (let ulp = 2 powi (floorLog2 \<bar>x\<bar> - 52)
            in of_int (roundHalfEven (x / ulp)) * ulp))"

text \<open>
  The number a decimal literal denotes, \<^verbatim>\<open>a + b\<close>, \<^verbatim>\<open>a - b\<close>, and
  \<^verbatim>\<open>xs.reduce((sum, p) => sum + p, 0)\<close>.
\<close>

definition num :: "rat \<Rightarrow> rat" where
  "num q = round53 q"

definition numAdd :: "rat \<Rightarrow> rat \<Rightarrow> rat" where
  "numAdd a b = round53 (a + b)"

definition numSub :: "rat \<Rightarrow> rat \<Rightarrow> rat" where
  "numSub a b = round53 (a - b)"

definition sumPoints :: "rat list \<Rightarrow> rat" where
  "sumPoints xs = foldl numAdd 0 xs"

section \<open>Participant standings\<close>

record participant =
  teamId :: int
  teamName :: string
  memberId :: nat
  memberName :: string
  totalPoints :: rat
  adjustedScore :: rat
  roundScores :: "rat list"

text \<open>\<^verbatim>\<open>xs.slice(n, -n)\<close>.\<close>

definition sliceEnds :: "nat \<Rightarrow> 'a list \<Rightarrow> 'a list" where
  "sliceEnds n xs = take (length xs - n - n) (drop n xs)"

text \<open>
  The adjusted score. \<^verbatim>\<open>[...prelimPoints].sort((a, b) => a - b)\<close> orders the numbers
  ascending: the difference of two numbers has the sign of their exact difference.
  The sums are those of \<^verbatim>\<open>reduce\<close>, in the arithmetic of the numbers.
\<close>

definition adjustedFor :: "string \<Rightarrow> rat list \<Rightarrow> rat" where
  "adjustedFor method prelimPoints =
     (let totalPoints = sumPoints prelimPoints
      in if method = ''total'' then totalPoints
         else if method = ''drop-1'' then
           (if length prelimPoints \<le> 2 then totalPoints
            else sumPoints (sliceEnds 1 (sort prelimPoints)))
         else if method = ''drop-2'' then
           (if length prelimPoints \<le> 4 then totalPoints
            else sumPoints (sliceEnds 2 (sort prelimPoints)))
         else 0)"

text \<open>
  The points of the member at \<open>memberIdx\<close> over the preliminary rounds: the entries of
  the history of the team in their order, without the missing values.
\<close>

definition memberPoints :: "manager \<Rightarrow> team \<Rightarrow> nat \<Rightarrow> rat list" where
  "memberPoints s t memberIdx =
     concat (map (\<lambda>e. case nth_opt (entry_points e) memberIdx of None \<Rightarrow> [] | Some p \<Rightarrow> [p])
                 (filter (\<lambda>e. entry_round e \<le> num_prelim_rounds (cfg s)) (speaker_points_history t)))"

definition teamParticipants :: "string \<Rightarrow> manager \<Rightarrow> team \<Rightarrow> participant list" where
  "teamParticipants method s t =
     concat (map (\<lambda>(memberIdx, mem).
                    (let prelimPoints = memberPoints s t memberIdx
                     in if prelimPoints = [] then []
                        else [\<lparr>teamId = team_id t, teamName = team_name t,
                               memberId = member_id mem, memberName = member_name mem,
                               totalPoints = sumPoints prelimPoints,
                               adjustedScore = adjustedFor method prelimPoints,
                               roundScores = prelimPoints\<rparr>]))
                 (enumerate 0 (members t)))"

text \<open>
  The comparator of the final sort. \<^verbatim>\<open>localeCompare\<close> depends on the locale of the
  platform and is a parameter.
\<close>

definition participantCmp :: "(string \<Rightarrow> string \<Rightarrow> int) \<Rightarrow> participant \<Rightarrow> participant \<Rightarrow> rat" where
  "participantCmp localeCompare a b =
     (if adjustedScore b \<noteq> adjustedScore a then numSub (adjustedScore b) (adjustedScore a)
      else if totalPoints b \<noteq> totalPoints a then numSub (totalPoints b) (totalPoints a)
      else of_int (localeCompare (memberName a) (memberName b)))"

definition getParticipantStandings ::
  "(string \<Rightarrow> string \<Rightarrow> int) \<Rightarrow> string \<Rightarrow> manager \<Rightarrow> participant list" where
  "getParticipantStandings localeCompare method s =
     sort_by (participantCmp localeCompare) (concat (map (teamParticipants method s) (teams s)))"

text \<open>
  The order the standings are claimed to have: adjusted score descending, then total
  descending, then name ascending.
\<close>

definition rankedBefore :: "(string \<Rightarrow> string \<Rightarrow> int) \<Rightarrow> participant \<Rightarrow> participant \<Rightarrow> bool" where
  "rankedBefore localeCompare a b =
     (adjustedScore a > adjustedScore b
      \<or> (adjustedScore a = adjustedScore b
          \<and> (totalPoints a > totalPoints b
              \<or> (totalPoints a = totalPoints b \<and> localeCompare (memberName a) (memberName b) \<le> 0))))"

section \<open>Simulator: the head-to-head loop\<close>

text \<open>
  \<^verbatim>\<open>runHeadToHeadSimulation\<close> of \<^verbatim>\<open>docs/simulator/simulation.js\<close>. A simulated
  tournament is drawn from a random source and computed in floating point; the model
  takes the teams that the \<open>n\<close>-th call of \<^verbatim>\<open>runTournament\<close> returns as a parameter.
  The progress callback and the pause between batches are outside the model.
\<close>

record sim_team =
  sim_id :: int
  trueRank :: nat
  history :: string
  opponentHistory :: "int list"

record h2h =
  totalSims :: nat
  matchupCount :: nat
  teamAWins :: nat
  teamBWins :: nat
  teamARanks :: "nat list"
  teamBRanks :: "nat list"

definition hasPrefix :: "string \<Rightarrow> sim_team \<Rightarrow> bool" where
  "hasPrefix h t = (length (history t) \<ge> length h \<and> take (length h) (history t) = h)"

text \<open>The body of the loop over \<^verbatim>\<open>teamsB\<close>, for one team of \<^verbatim>\<open>teamsA\<close>.\<close>

definition recordMatchup :: "nat \<Rightarrow> sim_team \<Rightarrow> sim_team \<Rightarrow> h2h \<Rightarrow> h2h" where
  "recordMatchup targetRound teamA teamB st =
     (if opponentHistory teamA ! targetRound = sim_id teamB
      then st\<lparr>matchupCount := matchupCount st + 1,
              teamARanks := teamARanks st @ [trueRank teamA],
              teamBRanks := teamBRanks st @ [trueRank teamB],
              teamAWins := (if targetRound < length (history teamA) \<and> history teamA ! targetRound = CHR ''W''
                            then teamAWins st + 1 else teamAWins st),
              teamBWins := (if targetRound < length (history teamA) \<and> history teamA ! targetRound = CHR ''W''
                            then teamBWins st else teamBWins st + 1)\<rparr>
      else st)"

definition scanTournament :: "string \<Rightarrow> string \<Rightarrow> sim_team list \<Rightarrow> h2h \<Rightarrow> h2h" where
  "scanTournament historyA historyB tms st =
     (let teamsA = filter (hasPrefix historyA) tms;
          teamsB = filter (hasPrefix historyB) tms;
          targetRound = length historyA
      in fold (\<lambda>teamA acc.
                 if targetRound \<ge> length (opponentHistory teamA) then acc
                 else fold (recordMatchup targetRound teamA) teamsB acc)
              teamsA st)"

text \<open>One batch: \<^verbatim>\<open>batchSize = 100\<close> tournaments, then \<^verbatim>\<open>totalSims += batchSize\<close>.\<close>

definition batchSize :: nat where
  "batchSize = 100"

definition runBatch :: "(nat \<Rightarrow> sim_team list) \<Rightarrow> string \<Rightarrow> string \<Rightarrow> h2h \<Rightarrow> h2h" where
  "runBatch runTournament historyA historyB st =
     (let st' = fold (\<lambda>i acc. scanTournament historyA historyB (runTournament (totalSims st + i)) acc)
                     [0..<batchSize] st
      in st'\<lparr>totalSims := totalSims st + batchSize\<rparr>)"

text \<open>\<^verbatim>\<open>maxSimulations || 50000\<close>: a missing or zero value gives the default.\<close>

definition maxSims :: "int option \<Rightarrow> int" where
  "maxSims maxSimulations =
     (case maxSimulations of None \<Rightarrow> 50000 | Some m \<Rightarrow> if m = 0 then 50000 else m)"

text \<open>
  The loop \<^verbatim>\<open>while (totalSims < maxSims && matchupCount < minMatchups)\<close>. Every
  pass adds a batch to \<^verbatim>\<open>totalSims\<close>, so the distance to \<^verbatim>\<open>maxSims\<close> shrinks.
\<close>

function h2hLoop ::
  "(nat \<Rightarrow> sim_team list) \<Rightarrow> string \<Rightarrow> string \<Rightarrow> int \<Rightarrow> int \<Rightarrow> h2h \<Rightarrow> h2h" where
  "h2hLoop runTournament historyA historyB minMatchups mx st =
     (if int (totalSims st) < mx \<and> int (matchupCount st) < minMatchups
      then h2hLoop runTournament historyA historyB minMatchups mx
             (runBatch runTournament historyA historyB st)
      else st)"
  by pat_completeness auto
termination
  by (relation "measure (\<lambda>(runTournament, historyA, historyB, minMatchups, mx, st).
                           nat (mx - int (totalSims st)))")
     (auto simp: runBatch_def batchSize_def Let_def)

declare h2hLoop.simps [simp del]

definition average :: "nat list \<Rightarrow> rat" where
  "average xs = (if xs = [] then 0 else of_nat (sum_list xs) / of_nat (length xs))"

text \<open>
  The result: the counters at the end of the loop; \<^verbatim>\<open>avgRankA\<close> and \<^verbatim>\<open>avgRankB\<close>
  of the returned object are \<open>average\<close> of the two rank lists.
\<close>

definition runHeadToHeadSimulation ::
  "(nat \<Rightarrow> sim_team list) \<Rightarrow> string \<Rightarrow> string \<Rightarrow> int \<Rightarrow> int option \<Rightarrow> h2h" where
  "runHeadToHeadSimulation runTournament historyA historyB minMatchups maxSimulations =
     h2hLoop runTournament historyA historyB minMatchups (maxSims maxSimulations)
       \<lparr>totalSims = 0, matchupCount = 0, teamAWins = 0, teamBWins = 0,
        teamARanks = [], teamBRanks = []\<rparr>"

text \<open>The counters after the first \<open>n\<close> tournaments, whatever the batches.\<close>

definition afterTournaments :: "(nat \<Rightarrow> sim_team list) \<Rightarrow> string \<Rightarrow> string \<Rightarrow> nat \<Rightarrow> h2h" where
  "afterTournaments runTournament historyA historyB n =
     (fold (\<lambda>i acc. scanTournament historyA historyB (runTournament i) acc) [0..<n]
        \<lparr>totalSims = 0, matchupCount = 0, teamAWins = 0, teamBWins = 0,
         teamARanks = [], teamBRanks = []\<rparr>)\<lparr>totalSims := n\<rparr>"

section \<open>Invariants and reachable states\<close>

text \<open>
  The states a tournament can be in: those \<^verbatim>\<open>init\<close> creates and those the operations
  lead to from them, whatever they return.
\<close>

inductive reachable :: "manager \<Rightarrow> bool" where
  reach_init: "reachable (init numTeams numPrelimRounds numElimRounds teamDetails)"
| reach_pairRound: "reachable s \<Longrightarrow> reachable (snd (pairRound r roundNum s))"
| reach_reportResult: "reachable s \<Longrightarrow> reachable (snd (reportResult matchId outcome speakerPoints s))"
| reach_updateResult: "reachable s \<Longrightarrow> reachable (snd (updateResult matchId newOutcome speakerPoints s))"
| reach_storeSpeakerPoints: "reachable s \<Longrightarrow> reachable (snd (storeSpeakerPoints matchId sp s))"

text \<open>The byes in the opponents of a team: the entries \<open>-1\<close>.\<close>

definition byeCount :: "team \<Rightarrow> nat" where
  "byeCount t = count_list (opponents t) (- 1)"

text \<open>Every opponent but a bye was met on one of the two sides.\<close>

definition sidesBalanced :: "team \<Rightarrow> bool" where
  "sidesBalanced t = (int (length (opponents t)) = aff_count t + neg_count t + int (byeCount t))"

text \<open>The match records say that the team with id \<open>i\<close> won the match.\<close>

definition winsMatch :: "int \<Rightarrow> tmatch \<Rightarrow> bool" where
  "winsMatch i m = ((aff_id m = i \<and> result m = Some ''A'') \<or> (neg_id m = i \<and> result m = Some ''N''))"

text \<open>
  The statistics of a team as the match records alone give them: no bye among the
  opponents, and one point of score for every match won.
\<close>

definition fromRecords :: "tmatch list \<Rightarrow> team \<Rightarrow> bool" where
  "fromRecords ms t =
     ((- 1) \<notin> set (opponents t) \<and> score t = int (length (filter (winsMatch (team_id t)) ms)))"

text \<open>
  Team ids are distinct and none is the bye sentinel; the two ids of a match are ids
  of teams.
\<close>

definition idsOk :: "team list \<Rightarrow> bool" where
  "idsOk ts = (distinct (map team_id ts) \<and> (- 1) \<notin> set (map team_id ts))"

definition resolvable :: "team list \<Rightarrow> tmatch \<Rightarrow> bool" where
  "resolvable ts m = (aff_id m \<in> set (map team_id ts) \<and> neg_id m \<in> set (map team_id ts))"

definition wellFormed :: "manager \<Rightarrow> bool" where
  "wellFormed s = (idsOk (teams s) \<and> list_all (resolvable (teams s)) (matches s))"

text \<open>A team without a bye whose opponents were all met on one of the two sides.\<close>

definition cleanBalanced :: "team \<Rightarrow> bool" where
  "cleanBalanced t = (int (length (opponents t)) = aff_count t + neg_count t \<and> (- 1) \<notin> set (opponents t))"

text \<open>
  The invariant of the reachable states, and the parts of a team and of a match it
  depends on.
\<close>

definition manager_inv :: "manager \<Rightarrow> bool" where
  "manager_inv s = (wellFormed s \<and> list_all sidesBalanced (teams s))"

definition teamKey :: "team \<Rightarrow> int \<times> int list \<times> int \<times> int" where
  "teamKey t = (team_id t, opponents t, aff_count t, neg_count t)"

definition matchKey :: "tmatch \<Rightarrow> int \<times> int \<times> int" where
  "matchKey m = (match_id m, aff_id m, neg_id m)"


section \<open>Example inputs\<close>

text \<open>Concrete inputs at which the theorems below are instantiated and the code is run.\<close>

definition exampleHistory :: "sp_entry list" where
  "exampleHistory =
     [\<lparr>entry_round = 1, entry_points = [Some 24, Some 28]\<rparr>,
      \<lparr>entry_round = 2, entry_points = [Some 27, None]\<rparr>,
      \<lparr>entry_round = 3, entry_points = [Some 30, Some 29]\<rparr>,
      \<lparr>entry_round = 4, entry_points = [Some 25]\<rparr>,
      \<lparr>entry_round = 5, entry_points = [Some 26, None]\<rparr>,
      \<lparr>entry_round = 6, entry_points = [Some 1, Some 1]\<rparr>]"

definition exampleManager :: manager where
  "exampleManager =
     (init 1 5 1 [])\<lparr>teams := map (\<lambda>t. t\<lparr>speaker_points_history := exampleHistory\<rparr>) (teams (init 1 5 1 []))\<rparr>"

definition compareLength :: "string \<Rightarrow> string \<Rightarrow> int" where
  "compareLength a b = int (length a) - int (length b)"

text \<open>
  A random source: every shuffle draw is 0 and every tie goes to the first team.
\<close>

definition rnd0 :: rnd where
  "rnd0 = \<lparr>draw = (\<lambda>_. 0), coin = (\<lambda>_. True)\<rparr>"

text \<open>A speaker point argument with a point above 30.\<close>

definition badPoints :: speaker_points_arg where
  "badPoints = \<lparr>affPoints = [Some 31, None], negPoints = [None, None]\<rparr>"

text \<open>
  Two members with the same recorded values in a different order of the rounds, in half
  points; the entry of round 4 is of an elimination round, that of round 5 holds no
  value for the first member.
\<close>

definition tieManager :: manager where
  "tieManager =
     (init 1 3 2 [\<lparr>detail_name = ''T'', detail_institution = [], detail_members = [''Bb'', ''A'']\<rparr>])
       \<lparr>teams :=
          map (\<lambda>t. t\<lparr>speaker_points_history :=
                        [\<lparr>entry_round = 1, entry_points = [Some (55 / 2), Some 28]\<rparr>,
                         \<lparr>entry_round = 2, entry_points = [Some 26, Some (55 / 2)]\<rparr>,
                         \<lparr>entry_round = 4, entry_points = [Some 30, Some 30]\<rparr>,
                         \<lparr>entry_round = 3, entry_points = [Some 28, Some 26]\<rparr>,
                         \<lparr>entry_round = 5, entry_points = [None, Some 29]\<rparr>]\<rparr>)
              (teams (init 1 3 2 [\<lparr>detail_name = ''T'', detail_institution = [],
                                   detail_members = [''Bb'', ''A'']\<rparr>]))\<rparr>"

text \<open>
  Two members with the points 25, 25.2 and 25.1, recorded in opposite orders of the
  rounds.
\<close>

definition roundingManager :: manager where
  "roundingManager =
     (init 1 3 0 [\<lparr>detail_name = ''T'', detail_institution = [], detail_members = [''Bb'', ''A'']\<rparr>])
       \<lparr>teams :=
          map (\<lambda>t. t\<lparr>speaker_points_history :=
                        [\<lparr>entry_round = 1, entry_points = [Some 25, Some (num (251 / 10))]\<rparr>,
                         \<lparr>entry_round = 2, entry_points = [Some (num (126 / 5)), Some (num (126 / 5))]\<rparr>,
                         \<lparr>entry_round = 3, entry_points = [Some (num (251 / 10)), Some 25]\<rparr>]\<rparr>)
              (teams (init 1 3 0 [\<lparr>detail_name = ''T'', detail_institution = [],
                                   detail_members = [''Bb'', ''A'']\<rparr>]))\<rparr>"

text \<open>
  The states below are written out in full. The section on the example runs proves
  that each is the state the named calls lead to.
\<close>

text \<open>
  Two teams and four preliminary rounds, after \<^verbatim>\<open>pairRound(1)\<close>: one match, with match id 1.
\<close>

definition paired2 :: manager where
  "paired2 =
     \<lparr>cfg =
         \<lparr>num_teams = 2, num_prelim_rounds = 4, num_elim_rounds = 0,
            num_rounds = 4\<rparr>,
         current_round = 0,
         matches =
           [\<lparr>match_id = 1, round_num = 1, aff_id = 1, neg_id = 0,
               aff_name = ''Team 2'', neg_name = ''Team 1'', result = None,
               judge_id = None, speaker_points = None\<rparr>],
         next_match_id = 2, next_judge_id = 1,
         pairing_file_content =
           [Comment_line ''# Format: Round MatchID AffID NegID'',
            Pairing_line 1 1 1 0],
         result_file_content =
           [Comment_line
             ''# Format: Round MatchID AffID NegID Outcome JudgeID [Aff1Pts Aff2Pts Neg1Pts Neg2Pts]'',
            Comment_line ''# JudgeID: Use -1 if no judge assigned''],
         teams =
           [\<lparr>team_id = 0, team_name = ''Team 1'', institution = ''Unknown'',
               members =
                 [\<lparr>member_name = ''Member 1'', member_id = 1\<rparr>,
                  \<lparr>member_name = ''Member 2'', member_id = 2\<rparr>],
               wins = 0, score = 0, buchholz = 0, opponents = [], aff_count = 0,
               neg_count = 0, last_side = None, side_history = [],
               break_seed = None, speaker_points_history = []\<rparr>,
            \<lparr>team_id = 1, team_name = ''Team 2'', institution = ''Unknown'',
               members =
                 [\<lparr>member_name = ''Member 1'', member_id = 1\<rparr>,
                  \<lparr>member_name = ''Member 2'', member_id = 2\<rparr>],
               wins = 0, score = 0, buchholz = 0, opponents = [], aff_count = 0,
               neg_count = 0, last_side = None, side_history = [],
               break_seed = None, speaker_points_history = []\<rparr>]\<rparr>"

text \<open>
  The same tournament after \<^verbatim>\<open>reportResult(1, 'A')\<close>.
\<close>

definition reported2 :: manager where
  "reported2 =
     \<lparr>cfg =
         \<lparr>num_teams = 2, num_prelim_rounds = 4, num_elim_rounds = 0,
            num_rounds = 4\<rparr>,
         current_round = 1,
         matches =
           [\<lparr>match_id = 1, round_num = 1, aff_id = 1, neg_id = 0,
               aff_name = ''Team 2'', neg_name = ''Team 1'', result = Some ''A'',
               judge_id = None, speaker_points = None\<rparr>],
         next_match_id = 2, next_judge_id = 1,
         pairing_file_content =
           [Comment_line ''# Format: Round MatchID AffID NegID'',
            Pairing_line 1 1 1 0],
         result_file_content =
           [Comment_line
             ''# Format: Round MatchID AffID NegID Outcome JudgeID [Aff1Pts Aff2Pts Neg1Pts Neg2Pts]'',
            Comment_line ''# JudgeID: Use -1 if no judge assigned'',
            Result_line 1 1 1 0 ''A'' (Some (- 1)) []],
         teams =
           [\<lparr>team_id = 0, team_name = ''Team 1'', institution = ''Unknown'',
               members =
                 [\<lparr>member_name = ''Member 1'', member_id = 1\<rparr>,
                  \<lparr>member_name = ''Member 2'', member_id = 2\<rparr>],
               wins = 0, score = 0, buchholz = 1, opponents = [1], aff_count = 0,
               neg_count = 1, last_side = Some Neg, side_history = [(1, [Neg])],
               break_seed = None, speaker_points_history = []\<rparr>,
            \<lparr>team_id = 1, team_name = ''Team 2'', institution = ''Unknown'',
               members =
                 [\<lparr>member_name = ''Member 1'', member_id = 1\<rparr>,
                  \<lparr>member_name = ''Member 2'', member_id = 2\<rparr>],
               wins = 1, score = 1, buchholz = 0, opponents = [0], aff_count = 1,
               neg_count = 0, last_side = Some Aff, side_history = [(0, [Aff])],
               break_seed = None, speaker_points_history = []\<rparr>]\<rparr>"

text \<open>
  The same tournament after \<^verbatim>\<open>updateResult(1, null)\<close> has cleared the result.
\<close>

definition cleared2 :: manager where
  "cleared2 =
     \<lparr>cfg =
         \<lparr>num_teams = 2, num_prelim_rounds = 4, num_elim_rounds = 0,
            num_rounds = 4\<rparr>,
         current_round = 1,
         matches =
           [\<lparr>match_id = 1, round_num = 1, aff_id = 1, neg_id = 0,
               aff_name = ''Team 2'', neg_name = ''Team 1'', result = None,
               judge_id = None, speaker_points = None\<rparr>],
         next_match_id = 2, next_judge_id = 1,
         pairing_file_content =
           [Comment_line ''# Format: Round MatchID AffID NegID'',
            Pairing_line 1 1 1 0],
         result_file_content =
           [Comment_line
             ''# Format: Round MatchID AffID NegID Outcome JudgeID [Aff1Pts Aff2Pts Neg1Pts Neg2Pts]'',
            Comment_line ''# JudgeID: Use -1 if no judge assigned'',
            Commented (Result_line 1 1 1 0 ''A'' (Some (- 1)) [])],
         teams =
           [\<lparr>team_id = 0, team_name = ''Team 1'', institution = ''Unknown'',
               members =
                 [\<lparr>member_name = ''Member 1'', member_id = 1\<rparr>,
                  \<lparr>member_name = ''Member 2'', member_id = 2\<rparr>],
               wins = 0, score = 0, buchholz = 0, opponents = [1], aff_count = 0,
               neg_count = 1, last_side = Some Neg, side_history = [(1, [Neg])],
               break_seed = None, speaker_points_history = []\<rparr>,
            \<lparr>team_id = 1, team_name = ''Team 2'', institution = ''Unknown'',
               members =
                 [\<lparr>member_name = ''Member 1'', member_id = 1\<rparr>,
                  \<lparr>member_name = ''Member 2'', member_id = 2\<rparr>],
               wins = 0, score = 0, buchholz = 0, opponents = [0], aff_count = 1,
               neg_count = 0, last_side = Some Aff, side_history = [(0, [Aff])],
               break_seed = None, speaker_points_history = []\<rparr>]\<rparr>"

text \<open>
  Three teams, after \<^verbatim>\<open>pairRound(1)\<close>: one match and a bye.
\<close>

definition paired3 :: manager where
  "paired3 =
     \<lparr>cfg =
         \<lparr>num_teams = 3, num_prelim_rounds = 2, num_elim_rounds = 0,
            num_rounds = 2\<rparr>,
         current_round = 0,
         matches =
           [\<lparr>match_id = 1, round_num = 1, aff_id = 1, neg_id = 2,
               aff_name = ''Team 2'', neg_name = ''Team 3'', result = None,
               judge_id = None, speaker_points = None\<rparr>],
         next_match_id = 2, next_judge_id = 1,
         pairing_file_content =
           [Comment_line ''# Format: Round MatchID AffID NegID'',
            Pairing_line 1 1 1 2],
         result_file_content =
           [Comment_line
             ''# Format: Round MatchID AffID NegID Outcome JudgeID [Aff1Pts Aff2Pts Neg1Pts Neg2Pts]'',
            Comment_line ''# JudgeID: Use -1 if no judge assigned''],
         teams =
           [\<lparr>team_id = 0, team_name = ''Team 1'', institution = ''Unknown'',
               members =
                 [\<lparr>member_name = ''Member 1'', member_id = 1\<rparr>,
                  \<lparr>member_name = ''Member 2'', member_id = 2\<rparr>],
               wins = 0, score = 1, buchholz = 0, opponents = [- 1],
               aff_count = 0, neg_count = 0, last_side = None, side_history = [],
               break_seed = None, speaker_points_history = []\<rparr>,
            \<lparr>team_id = 1, team_name = ''Team 2'', institution = ''Unknown'',
               members =
                 [\<lparr>member_name = ''Member 1'', member_id = 1\<rparr>,
                  \<lparr>member_name = ''Member 2'', member_id = 2\<rparr>],
               wins = 0, score = 0, buchholz = 0, opponents = [], aff_count = 0,
               neg_count = 0, last_side = None, side_history = [],
               break_seed = None, speaker_points_history = []\<rparr>,
            \<lparr>team_id = 2, team_name = ''Team 3'', institution = ''Unknown'',
               members =
                 [\<lparr>member_name = ''Member 1'', member_id = 1\<rparr>,
                  \<lparr>member_name = ''Member 2'', member_id = 2\<rparr>],
               wins = 0, score = 0, buchholz = 0, opponents = [], aff_count = 0,
               neg_count = 0, last_side = None, side_history = [],
               break_seed = None, speaker_points_history = []\<rparr>]\<rparr>"

text \<open>
  The same tournament after \<^verbatim>\<open>reportResult(1, 'A')\<close>.
\<close>

definition reported3 :: manager where
  "reported3 =
     \<lparr>cfg =
         \<lparr>num_teams = 3, num_prelim_rounds = 2, num_elim_rounds = 0,
            num_rounds = 2\<rparr>,
         current_round = 1,
         matches =
           [\<lparr>match_id = 1, round_num = 1, aff_id = 1, neg_id = 2,
               aff_name = ''Team 2'', neg_name = ''Team 3'', result = Some ''A'',
               judge_id = None, speaker_points = None\<rparr>],
         next_match_id = 2, next_judge_id = 1,
         pairing_file_content =
           [Comment_line ''# Format: Round MatchID AffID NegID'',
            Pairing_line 1 1 1 2],
         result_file_content =
           [Comment_line
             ''# Format: Round MatchID AffID NegID Outcome JudgeID [Aff1Pts Aff2Pts Neg1Pts Neg2Pts]'',
            Comment_line ''# JudgeID: Use -1 if no judge assigned'',
            Result_line 1 1 1 2 ''A'' (Some (- 1)) []],
         teams =
           [\<lparr>team_id = 0, team_name = ''Team 1'', institution = ''Unknown'',
               members =
                 [\<lparr>member_name = ''Member 1'', member_id = 1\<rparr>,
                  \<lparr>member_name = ''Member 2'', member_id = 2\<rparr>],
               wins = 0, score = 0, buchholz = 0, opponents = [], aff_count = 0,
               neg_count = 0, last_side = None, side_history = [],
               break_seed = None, speaker_points_history = []\<rparr>,
            \<lparr>team_id = 1, team_name = ''Team 2'', institution = ''Unknown'',
               members =
                 [\<lparr>member_name = ''Member 1'', member_id = 1\<rparr>,
                  \<lparr>member_name = ''Member 2'', member_id = 2\<rparr>],
               wins = 1, score = 1, buchholz = 0, opponents = [2], aff_count = 1,
               neg_count = 0, last_side = Some Aff, side_history = [(2, [Aff])],
               break_seed = None, speaker_points_history = []\<rparr>,
            \<lparr>team_id = 2, team_name = ''Team 3'', institution = ''Unknown'',
               members =
                 [\<lparr>member_name = ''Member 1'', member_id = 1\<rparr>,
                  \<lparr>member_name = ''Member 2'', member_id = 2\<rparr>],
               wins = 0, score = 0, buchholz = 1, opponents = [1], aff_count = 0,
               neg_count = 1, last_side = Some Neg, side_history = [(1, [Neg])],
               break_seed = None, speaker_points_history = []\<rparr>]\<rparr>"

text \<open>
  Five teams, after \<^verbatim>\<open>pairRound(1)\<close>: two matches and a bye.
\<close>

definition paired5 :: manager where
  "paired5 =
     \<lparr>cfg =
         \<lparr>num_teams = 5, num_prelim_rounds = 3, num_elim_rounds = 0,
            num_rounds = 3\<rparr>,
         current_round = 0,
         matches =
           [\<lparr>match_id = 1, round_num = 1, aff_id = 1, neg_id = 2,
               aff_name = ''Team 2'', neg_name = ''Team 3'', result = None,
               judge_id = None, speaker_points = None\<rparr>,
            \<lparr>match_id = 2, round_num = 1, aff_id = 3, neg_id = 4,
               aff_name = ''Team 4'', neg_name = ''Team 5'', result = None,
               judge_id = None, speaker_points = None\<rparr>],
         next_match_id = 3, next_judge_id = 1,
         pairing_file_content =
           [Comment_line ''# Format: Round MatchID AffID NegID'',
            Pairing_line 1 1 1 2, Pairing_line 1 2 3 4],
         result_file_content =
           [Comment_line
             ''# Format: Round MatchID AffID NegID Outcome JudgeID [Aff1Pts Aff2Pts Neg1Pts Neg2Pts]'',
            Comment_line ''# JudgeID: Use -1 if no judge assigned''],
         teams =
           [\<lparr>team_id = 0, team_name = ''Team 1'', institution = ''Unknown'',
               members =
                 [\<lparr>member_name = ''Member 1'', member_id = 1\<rparr>,
                  \<lparr>member_name = ''Member 2'', member_id = 2\<rparr>],
               wins = 0, score = 1, buchholz = 0, opponents = [- 1],
               aff_count = 0, neg_count = 0, last_side = None, side_history = [],
               break_seed = None, speaker_points_history = []\<rparr>,
            \<lparr>team_id = 1, team_name = ''Team 2'', institution = ''Unknown'',
               members =
                 [\<lparr>member_name = ''Member 1'', member_id = 1\<rparr>,
                  \<lparr>member_name = ''Member 2'', member_id = 2\<rparr>],
               wins = 0, score = 0, buchholz = 0, opponents = [], aff_count = 0,
               neg_count = 0, last_side = None, side_history = [],
               break_seed = None, speaker_points_history = []\<rparr>,
            \<lparr>team_id = 2, team_name = ''Team 3'', institution = ''Unknown'',
               members =
                 [\<lparr>member_name = ''Member 1'', member_id = 1\<rparr>,
                  \<lparr>member_name = ''Member 2'', member_id = 2\<rparr>],
               wins = 0, score = 0, buchholz = 0, opponents = [], aff_count = 0,
               neg_count = 0, last_side = None, side_history = [],
               break_seed = None, speaker_points_history = []\<rparr>,
            \<lparr>team_id = 3, team_name = ''Team 4'', institution = ''Unknown'',
               members =
                 [\<lparr>member_name = ''Member 1'', member_id = 1\<rparr>,
                  \<lparr>member_name = ''Member 2'', member_id = 2\<rparr>],
               wins = 0, score = 0, buchholz = 0, opponents = [], aff_count = 0,
               neg_count = 0, last_side = None, side_history = [],
               break_seed = None, speaker_points_history = []\<rparr>,
            \<lparr>team_id = 4, team_name = ''Team 5'', institution = ''Unknown'',
               members =
                 [\<lparr>member_name = ''Member 1'', member_id = 1\<rparr>,
                  \<lparr>member_name = ''Member 2'', member_id = 2\<rparr>],
               wins = 0, score = 0, buchholz = 0, opponents = [], aff_count = 0,
               neg_count = 0, last_side = None, side_history = [],
               break_seed = None, speaker_points_history = []\<rparr>]\<rparr>"

text \<open>
  Eight teams, no preliminary round and three elimination rounds: round 1 is the
  quarterfinal, paired by \<^verbatim>\<open>pairRound(1)\<close>; its four matches are reported \<^verbatim>\<open>'A'\<close>,
  \<^verbatim>\<open>'N'\<close>, \<^verbatim>\<open>'A'\<close>, \<^verbatim>\<open>'N'\<close>, so that the better seed wins each.
\<close>

definition qfReported :: manager where
  "qfReported =
     \<lparr>cfg =
         \<lparr>num_teams = 8, num_prelim_rounds = 0, num_elim_rounds = 3,
            num_rounds = 3\<rparr>,
         current_round = 1,
         matches =
           [\<lparr>match_id = 1, round_num = 1, aff_id = 0, neg_id = 7,
               aff_name = ''Team 1'', neg_name = ''Team 8'', result = Some ''A'',
               judge_id = None, speaker_points = None\<rparr>,
            \<lparr>match_id = 2, round_num = 1, aff_id = 4, neg_id = 3,
               aff_name = ''Team 5'', neg_name = ''Team 4'', result = Some ''N'',
               judge_id = None, speaker_points = None\<rparr>,
            \<lparr>match_id = 3, round_num = 1, aff_id = 2, neg_id = 5,
               aff_name = ''Team 3'', neg_name = ''Team 6'', result = Some ''A'',
               judge_id = None, speaker_points = None\<rparr>,
            \<lparr>match_id = 4, round_num = 1, aff_id = 6, neg_id = 1,
               aff_name = ''Team 7'', neg_name = ''Team 2'', result = Some ''N'',
               judge_id = None, speaker_points = None\<rparr>],
         next_match_id = 5, next_judge_id = 1,
         pairing_file_content =
           [Comment_line ''# Format: Round MatchID AffID NegID'',
            Pairing_line 1 1 0 7, Pairing_line 1 2 4 3, Pairing_line 1 3 2 5,
            Pairing_line 1 4 6 1],
         result_file_content =
           [Comment_line
             ''# Format: Round MatchID AffID NegID Outcome JudgeID [Aff1Pts Aff2Pts Neg1Pts Neg2Pts]'',
            Comment_line ''# JudgeID: Use -1 if no judge assigned'',
            Result_line 1 1 0 7 ''A'' (Some (- 1)) [],
            Result_line 1 2 4 3 ''N'' (Some (- 1)) [],
            Result_line 1 3 2 5 ''A'' (Some (- 1)) [],
            Result_line 1 4 6 1 ''N'' (Some (- 1)) []],
         teams =
           [\<lparr>team_id = 0, team_name = ''Team 1'', institution = ''Unknown'',
               members =
                 [\<lparr>member_name = ''Member 1'', member_id = 1\<rparr>,
                  \<lparr>member_name = ''Member 2'', member_id = 2\<rparr>],
               wins = 1, score = 1, buchholz = 0, opponents = [7], aff_count = 1,
               neg_count = 0, last_side = Some Aff, side_history = [(7, [Aff])],
               break_seed = Some 1, speaker_points_history = []\<rparr>,
            \<lparr>team_id = 1, team_name = ''Team 2'', institution = ''Unknown'',
               members =
                 [\<lparr>member_name = ''Member 1'', member_id = 1\<rparr>,
                  \<lparr>member_name = ''Member 2'', member_id = 2\<rparr>],
               wins = 1, score = 1, buchholz = 0, opponents = [6], aff_count = 0,
               neg_count = 1, last_side = Some Neg, side_history = [(6, [Neg])],
               break_seed = Some 2, speaker_points_history = []\<rparr>,
            \<lparr>team_id = 2, team_name = ''Team 3'', institution = ''Unknown'',
               members =
                 [\<lparr>member_name = ''Member 1'', member_id = 1\<rparr>,
                  \<lparr>member_name = ''Member 2'', member_id = 2\<rparr>],
               wins = 1, score = 1, buchholz = 0, opponents = [5], aff_count = 1,
               neg_count = 0, last_side = Some Aff, side_history = [(5, [Aff])],
               break_seed = Some 3, speaker_points_history = []\<rparr>,
            \<lparr>team_id = 3, team_name = ''Team 4'', institution = ''Unknown'',
               members =
                 [\<lparr>member_name = ''Member 1'', member_id = 1\<rparr>,
                  \<lparr>member_name = ''Member 2'', member_id = 2\<rparr>],
               wins = 1, score = 1, buchholz = 0, opponents = [4], aff_count = 0,
               neg_count = 1, last_side = Some Neg, side_history = [(4, [Neg])],
               break_seed = Some 4, speaker_points_history = []\<rparr>,
            \<lparr>team_id = 4, team_name = ''Team 5'', institution = ''Unknown'',
               members =
                 [\<lparr>member_name = ''Member 1'', member_id = 1\<rparr>,
                  \<lparr>member_name = ''Member 2'', member_id = 2\<rparr>],
               wins = 0, score = 0, buchholz = 1, opponents = [3], aff_count = 1,
               neg_count = 0, last_side = Some Aff, side_history = [(3, [Aff])],
               break_seed = Some 5, speaker_points_history = []\<rparr>,
            \<lparr>team_id = 5, team_name = ''Team 6'', institution = ''Unknown'',
               members =
                 [\<lparr>member_name = ''Member 1'', member_id = 1\<rparr>,
                  \<lparr>member_name = ''Member 2'', member_id = 2\<rparr>],
               wins = 0, score = 0, buchholz = 1, opponents = [2], aff_count = 0,
               neg_count = 1, last_side = Some Neg, side_history = [(2, [Neg])],
               break_seed = Some 6, speaker_points_history = []\<rparr>,
            \<lparr>team_id = 6, team_name = ''Team 7'', institution = ''Unknown'',
               members =
                 [\<lparr>member_name = ''Member 1'', member_id = 1\<rparr>,
                  \<lparr>member_name = ''Member 2'', member_id = 2\<rparr>],
               wins = 0, score = 0, buchholz = 1, opponents = [1], aff_count = 1,
               neg_count = 0, last_side = Some Aff, side_history = [(1, [Aff])],
               break_seed = Some 7, speaker_points_history = []\<rparr>,
            \<lparr>team_id = 7, team_name = ''Team 8'', institution = ''Unknown'',
               members =
                 [\<lparr>member_name = ''Member 1'', member_id = 1\<rparr>,
                  \<lparr>member_name = ''Member 2'', member_id = 2\<rparr>],
               wins = 0, score = 0, buchholz = 1, opponents = [0], aff_count = 0,
               neg_count = 1, last_side = Some Neg, side_history = [(0, [Neg])],
               break_seed = Some 8, speaker_points_history = []\<rparr>]\<rparr>"

section \<open>Proofs: rounding\<close>

lemma bitLength_bounds:
  "0 < a \<Longrightarrow> 2 ^ bitLength a \<le> 2 * a \<and> a < 2 ^ bitLength a"
proof (induction a rule: bitLength.induct)
  case (1 a)
  show ?case
  proof (cases "a div 2 \<le> 0")
    case True
    then have "a = 1" using "1.prems" by presburger
    then show ?thesis by (simp add: bitLength.simps [of 1] bitLength.simps [of 0])
  next
    case False
    then have "2 ^ bitLength (a div 2) \<le> 2 * (a div 2) \<and> a div 2 < 2 ^ bitLength (a div 2)"
      using "1.IH" "1.prems" by simp
    moreover have "bitLength a = Suc (bitLength (a div 2))"
      using "1.prems" by (subst bitLength.simps) simp
    ultimately show ?thesis by simp presburger
  qed
qed

lemma floorLog2_le:
  assumes "0 < x"
  shows "2 powi floorLog2 x \<le> x"
proof -
  obtain a b where q: "quotient_of x = (a, b)" by (cases "quotient_of x")
  have b: "0 < b" using quotient_of_denom_pos [OF q] .
  have x: "x = of_int a / of_int b" using quotient_of_div [OF q] .
  have a: "0 < a" using assms b x by (simp add: zero_less_divide_iff)
  let ?d = "int (bitLength a) - int (bitLength b)"
  have la: "(2::int) ^ bitLength a \<le> 2 * a" using bitLength_bounds [OF a] by simp
  have lb: "b < 2 ^ bitLength b" using bitLength_bounds [OF b] by simp
  have "(2::rat) powi (?d - 1) \<le> x"
  proof -
    have "(2::rat) powi (?d - 1) = 2 ^ bitLength a / (2 * 2 ^ bitLength b)"
      by (simp add: power_int_diff power_int_add)
    also have "\<dots> \<le> of_int (2 * a) / (2 * of_int b)"
    proof -
      have "of_int ((2::int) ^ bitLength a) \<le> (of_int (2 * a) :: rat)"
        using la by (simp only: of_int_le_iff)
      then have 1: "(2::rat) ^ bitLength a \<le> of_int (2 * a)" by simp
      have "(of_int b :: rat) \<le> of_int ((2::int) ^ bitLength b)"
        using lb by (simp only: of_int_le_iff)
      then have 2: "2 * (of_int b :: rat) \<le> 2 * 2 ^ bitLength b" by simp
      have 3: "0 < 2 * (of_int b :: rat)" using b by simp
      have 4: "(0::rat) \<le> of_int (2 * a)" using a by simp
      show ?thesis by (rule frac_le [OF 4 1 3 2])
    qed
    also have "\<dots> = x" using x by simp
    finally show ?thesis .
  qed
  then show ?thesis by (simp add: floorLog2_def q Let_def)
qed

lemma roundHalfEven_bounds: "\<lfloor>q\<rfloor> \<le> roundHalfEven q \<and> roundHalfEven q \<le> \<lfloor>q\<rfloor> + 1"
  by (simp add: roundHalfEven_def Let_def)

lemma roundHalfEven_of_int [simp]: "roundHalfEven (of_int z) = z"
  by (simp add: roundHalfEven_def Let_def)

lemma round53_sign:
  "(0 < x \<longrightarrow> 0 < round53 x) \<and> (x < 0 \<longrightarrow> round53 x < 0) \<and> round53 0 = 0"
proof (intro conjI impI)
  show "round53 0 = 0" by (simp add: round53_def)
next
  assume x: "0 < x"
  let ?e = "floorLog2 \<bar>x\<bar>"
  let ?u = "(2::rat) powi (?e - 52)"
  have u: "0 < ?u" by simp
  have h: "2 powi ?e \<le> x" using floorLog2_le [of "\<bar>x\<bar>"] x by simp
  have "2 powi ?e / ?u \<le> x / ?u" by (rule divide_right_mono [OF h]) simp
  moreover have "(2::rat) powi ?e / ?u = 2 powi 52" by (simp add: power_int_diff)
  ultimately have "(2::rat) powi 52 \<le> x / ?u" by (simp only:)
  moreover have "(1::rat) \<le> 2 powi 52" by simp
  ultimately have "(1::rat) \<le> x / ?u" by linarith
  then have "1 \<le> \<lfloor>x / ?u\<rfloor>" by (simp add: le_floor_iff)
  then have "0 < roundHalfEven (x / ?u)" using roundHalfEven_bounds [of "x / ?u"] by linarith
  then have "0 < (of_int (roundHalfEven (x / ?u)) :: rat) * ?u" using u by simp
  then show "0 < round53 x" using x by (simp add: round53_def Let_def)
next
  assume x: "x < 0"
  let ?e = "floorLog2 \<bar>x\<bar>"
  let ?u = "(2::rat) powi (?e - 52)"
  have u: "0 < ?u" by simp
  have h: "2 powi ?e \<le> - x" using floorLog2_le [of "\<bar>x\<bar>"] x by simp
  have "2 powi ?e / ?u \<le> (- x) / ?u" by (rule divide_right_mono [OF h]) simp
  moreover have "(2::rat) powi ?e / ?u = 2 powi 52" by (simp add: power_int_diff)
  ultimately have "(2::rat) powi 52 \<le> (- x) / ?u" by (simp only:)
  moreover have "(2::rat) \<le> 2 powi 52" by simp
  ultimately have "x / ?u \<le> - 2" by simp
  then have "\<lfloor>x / ?u\<rfloor> \<le> \<lfloor>- 2 :: rat\<rfloor>" by (rule floor_mono)
  then have "\<lfloor>x / ?u\<rfloor> \<le> - 2" by simp
  then have "roundHalfEven (x / ?u) < 0" using roundHalfEven_bounds [of "x / ?u"] by linarith
  then have "(of_int (roundHalfEven (x / ?u)) :: rat) * ?u < 0" using u by (simp add: mult_neg_pos)
  then show "round53 x < 0" using x by (simp add: round53_def Let_def)
qed

lemma round53_le_0 [simp]: "(round53 x \<le> 0) = (x \<le> 0)"
  using round53_sign [of x] by (cases "x < 0"; cases "x = 0"; force)

lemma round53_exact:
  assumes m: "\<bar>m\<bar> < 2 ^ 53"
  shows "round53 (of_int m * 2 powi k) = of_int m * 2 powi k"
proof (cases "m = 0")
  case True then show ?thesis by (simp add: round53_def)
next
  case False
  let ?x = "(of_int m :: rat) * 2 powi k"
  let ?e = "floorLog2 \<bar>?x\<bar>"
  let ?u = "(2::rat) powi (?e - 52)"
  have x0: "?x \<noteq> 0" using False by simp
  have ax: "\<bar>?x\<bar> = of_int \<bar>m\<bar> * 2 powi k" by (simp add: abs_mult)
  have "0 < \<bar>?x\<bar>" using x0 by simp
  then have "2 powi ?e \<le> \<bar>?x\<bar>" by (rule floorLog2_le)
  also have "\<bar>?x\<bar> < 2 ^ 53 * 2 powi k"
  proof -
    have "(of_int \<bar>m\<bar> :: rat) < of_int (2 ^ 53)" using m by (simp only: of_int_less_iff)
    then show ?thesis unfolding ax by simp
  qed
  also have "(2::rat) ^ 53 * 2 powi k = 2 powi (53 + k)" by (simp add: power_int_add)
  finally have "(2::rat) powi ?e < 2 powi (53 + k)" .
  then have "?e < 53 + k"
    using power_int_increasing [of "53 + k" ?e "2::rat"] by (cases "?e < 53 + k") simp_all
  then have t: "0 \<le> k - (?e - 52)" by simp
  have "?x / ?u = of_int m * 2 powi (k - (?e - 52))" by (simp add: power_int_diff)
  also have "\<dots> = of_int m * 2 ^ nat (k - (?e - 52))" using t by (simp add: power_int_def)
  also have "\<dots> = of_int (m * 2 ^ nat (k - (?e - 52)))" by simp
  finally have q: "?x / ?u = of_int (m * 2 ^ nat (k - (?e - 52)))" .
  have "round53 ?x = of_int (roundHalfEven (?x / ?u)) * ?u"
    using x0 by (simp only: round53_def Let_def if_False)
  also have "\<dots> = (?x / ?u) * ?u" by (simp only: q roundHalfEven_of_int)
  also have "\<dots> = ?x" by simp
  finally show ?thesis .
qed

lemma foldl_numAdd_exact:
  assumes "\<forall>x\<in>set xs. \<exists>n::nat. x = of_nat n * 2 powi k"
      and "acc = of_nat a * 2 powi k"
      and "acc + sum_list xs < 2 ^ 53 * 2 powi k"
  shows "foldl numAdd acc xs = acc + sum_list xs"
  using assms
proof (induction xs arbitrary: acc a)
  case Nil then show ?case by simp
next
  case (Cons x xs)
  then obtain n :: nat where n: "x = of_nat n * 2 powi k" by auto
  have nn: "\<forall>y\<in>set xs. 0 \<le> y" using Cons.prems(1) by auto
  then have s0: "0 \<le> sum_list xs" by (simp add: sum_list_nonneg)
  have ax: "acc + x = of_nat (a + n) * 2 powi k" using n Cons.prems(2) by (simp add: algebra_simps)
  have "acc + x \<le> acc + x + sum_list xs" using s0 by simp
  also have "\<dots> < 2 ^ 53 * 2 powi k" using Cons.prems(3) by (simp add: algebra_simps)
  finally have "(of_nat (a + n) :: rat) * 2 powi k < 2 ^ 53 * 2 powi k" using ax by simp
  then have "(of_nat (a + n) :: rat) < 2 ^ 53" by simp
  then have "(of_nat (a + n) :: rat) < of_nat (2 ^ 53)" by simp
  then have "a + n < 2 ^ 53" by (simp only: of_nat_less_iff)
  then have "\<bar>int (a + n)\<bar> < 2 ^ 53" by simp
  then have "round53 (of_int (int (a + n)) * 2 powi k) = of_int (int (a + n)) * 2 powi k"
    by (rule round53_exact)
  then have ex: "numAdd acc x = acc + x" using ax by (simp add: numAdd_def)
  have "foldl numAdd (acc + x) xs = acc + x + sum_list xs"
  proof (rule Cons.IH [of "acc + x" "a + n"])
    show "\<forall>x\<in>set xs. \<exists>n::nat. x = of_nat n * 2 powi k" using Cons.prems(1) by simp
    show "acc + x = of_nat (a + n) * 2 powi k" by (rule ax)
    show "acc + x + sum_list xs < 2 ^ 53 * 2 powi k" using Cons.prems(3) by (simp add: algebra_simps)
  qed
  then show ?case using ex by (simp add: algebra_simps)
qed

lemma sumPoints_exact:
  assumes "\<forall>x\<in>set xs. \<exists>n::nat. x = of_nat n * 2 powi k"
      and "sum_list xs < 2 ^ 53 * 2 powi k"
  shows "sumPoints xs = sum_list xs"
  using foldl_numAdd_exact [OF assms(1), of 0 0] assms(2) by (simp add: sumPoints_def)

section \<open>Proofs: list helpers\<close>

lemma length_modify [simp]: "length (modify k f xs) = length xs"
  by (simp add: modify_def)

lemma nth_modify: "j < length xs \<Longrightarrow> modify k f xs ! j = (if j = k then f (xs ! j) else xs ! j)"
  by (simp add: modify_def)

lemma map_modify_same:
  "(\<And>x. g (f x) = g x) \<Longrightarrow> map g (modify k f xs) = map g xs"
  by (cases "k < length xs") (simp_all add: modify_def map_update list_update_same_conv list_update_beyond)

lemma list_all_modify:
  "list_all P xs \<Longrightarrow> (\<And>x. P x \<Longrightarrow> P (f x)) \<Longrightarrow> list_all P (modify k f xs)"
  by (auto simp: list_all_length nth_modify)

lemma map_modify: "map g (modify k f xs) = (map g xs)[k := g (f (xs ! k))]"
  by (simp add: modify_def map_update)

section \<open>Proofs: the elimination bracket\<close>
















section \<open>Proofs: sorting with a comparator\<close>

lemma set_insort_by: "set (insort_by cmp x xs) = insert x (set xs)"
  by (induction xs) auto

lemma mset_insort_by: "mset (insort_by cmp x xs) = add_mset x (mset xs)"
  by (induction xs) auto

lemma mset_sort_by: "mset (sort_by cmp xs) = mset xs"
  unfolding sort_by_def by (induction xs) (simp_all add: mset_insort_by)

lemma set_sort_by: "set (sort_by cmp xs) = set xs"
  by (metis mset_sort_by set_mset_mset)

lemma length_sort_by: "length (sort_by cmp xs) = length xs"
  by (metis mset_sort_by size_mset)

lemma sorted_wrt_insort_by:
  assumes total: "\<And>a b. le a b \<or> le b a"
      and trans: "\<And>a b c. le a b \<Longrightarrow> le b c \<Longrightarrow> le a c"
      and cmp: "\<And>a b. (cmp a b \<le> 0) = le a b"
  shows "sorted_wrt le xs \<Longrightarrow> sorted_wrt le (insort_by cmp x xs)"
proof (induction xs)
  case Nil then show ?case by simp
next
  case (Cons y ys)
  show ?case
  proof (cases "cmp x y \<le> 0")
    case True
    then have "le x y" using cmp by simp
    then have "\<forall>z\<in>set ys. le x z" using Cons.prems trans by auto
    then show ?thesis using True Cons.prems \<open>le x y\<close> by simp
  next
    case False
    then have "le y x" using cmp total by blast
    then show ?thesis using False Cons by (simp add: set_insort_by)
  qed
qed

lemma sorted_wrt_sort_by:
  assumes total: "\<And>a b. le a b \<or> le b a"
      and trans: "\<And>a b c. le a b \<Longrightarrow> le b c \<Longrightarrow> le a c"
      and cmp: "\<And>a b. (cmp a b \<le> 0) = le a b"
  shows "sorted_wrt le (sort_by cmp xs)"
  unfolding sort_by_def
  by (induction xs) (simp_all add: sorted_wrt_insort_by [where le = le, OF total trans cmp])

section \<open>The example runs\<close>

text \<open>
  Each example state is reached from \<^verbatim>\<open>init\<close> by the calls named; the equations are
  evaluated on the model.
\<close>

lemma run_paired2: "pairRound rnd0 1 (init 2 4 0 []) = (Inr [(1, 0)], paired2)"
  by code_simp

lemma run_reported2: "reportResult 1 ''A'' None paired2 = (Inr True, reported2)"
  by code_simp

lemma run_cleared2: "updateResult 1 None None reported2 = (Inr True, cleared2)"
  by code_simp

lemma run_paired3: "pairRound rnd0 1 (init 3 2 0 []) = (Inr [(1, 2)], paired3)"
  by code_simp

lemma run_reported3: "reportResult 1 ''A'' None paired3 = (Inr True, reported3)"
  by code_simp

lemma run_paired5: "pairRound rnd0 1 (init 5 3 0 []) = (Inr [(1, 2), (3, 4)], paired5)"
  by code_simp

lemma run_qfReported:
  "snd (reportResult 4 ''N'' None
     (snd (reportResult 3 ''A'' None
       (snd (reportResult 2 ''N'' None
         (snd (reportResult 1 ''A'' None
           (snd (pairRound rnd0 1 (init 8 0 3 [])))))))))) = qfReported"
  by code_simp

section \<open>Proofs: the Swiss pairing is a full assignment\<close>

lemma mset_shuffleFrom: "i < length xs \<Longrightarrow> mset (shuffleFrom d i xs) = mset xs"
proof (induction i arbitrary: xs)
  case 0 then show ?case by simp
next
  case (Suc i)
  let ?j = "d (Suc i) mod (Suc i + 1)"
  let ?xs = "xs[Suc i := xs ! ?j, ?j := xs ! Suc i]"
  have j: "?j < length xs" using Suc.prems by (simp add: less_le_trans [OF mod_less_divisor])
  have "mset ?xs = mset xs" using mset_swap [OF j Suc.prems] .
  moreover have "i < length ?xs" using Suc.prems by simp
  ultimately show ?case using Suc.IH [of ?xs] by (simp add: Let_def)
qed

lemma mset_shuffleArray: "mset (shuffleArray d xs) = mset xs"
  by (cases xs) (simp_all add: shuffleArray_def mset_shuffleFrom)

lemma mset_groups_step:
  "distinct keys \<Longrightarrow>
     mset (concat (map (\<lambda>k. filter (\<lambda>t. f t = k) (x # xs)) keys))
       = (if f x \<in> set keys then {#x#} else {#}) + mset (concat (map (\<lambda>k. filter (\<lambda>t. f t = k) xs) keys))"
  by (induction keys) auto

lemma mset_groups:
  "distinct keys \<Longrightarrow> f ` set xs \<subseteq> set keys \<Longrightarrow>
     mset (concat (map (\<lambda>k. filter (\<lambda>t. f t = k) xs) keys)) = mset xs"
proof (induction xs)
  case Nil
  then show ?case by (induction keys) auto
next
  case (Cons x xs)
  have "f x \<in> set keys" "f ` set xs \<subseteq> set keys" using Cons.prems(2) by auto
  then show ?case
    using mset_groups_step [OF Cons.prems(1), of f x xs] Cons.IH [OF Cons.prems(1)]
    by (simp del: filter.simps)
qed

lemma mset_scoreGroups: "mset (concat (scoreGroups ts roundNum xs)) = mset xs"
proof (cases "roundNum > 2")
  case True
  have "mset (concat (map (\<lambda>k. filter (\<lambda>t. score (ts ! t) = k) xs)
               (rev (sort (remdups (map (\<lambda>t. score (ts ! t)) xs)))))) = mset xs"
    by (rule mset_groups) auto
  then show ?thesis using True by (simp add: scoreGroups_def)
next
  case False
  then show ?thesis by (simp add: scoreGroups_def)
qed

lemma determineSides_cases:
  "determineSides ts c t1 t2 sw = (t1, t2) \<or> determineSides ts c t1 t2 sw = (t2, t1)"
  by (simp add: determineSides_def Let_def)

lemma pairedTeams_snoc:
  "mset (pairedTeams (pairs @ [determineSides ts c t1 t2 sw])) = mset (pairedTeams pairs) + {#t1, t2#}"
  using determineSides_cases [of ts c t1 t2 sw] by (auto simp: pairedTeams_def)

lemma findBestOpponentFrom_bound:
  "findBestOpponentFrom ts t1 cs i best = Some (j, sw) \<Longrightarrow>
     (case best of None \<Rightarrow> True | Some b \<Rightarrow> b < i + length cs) \<Longrightarrow> j < i + length cs"
proof (induction cs arbitrary: i best)
  case Nil
  then show ?case by (auto split: option.splits)
next
  case (Cons c cs)
  show ?case
  proof (cases "team_id (ts ! c) \<notin> set (opponents (ts ! t1))")
    case True
    then show ?thesis using Cons.prems by simp
  next
    case False
    then have "j < Suc i + length cs"
      using Cons.prems
      by (intro Cons.IH [where best = "case best of Some j \<Rightarrow> Some j | None \<Rightarrow>
                  (let t1History = sidesAgainst (ts ! t1) (team_id (ts ! c));
                       canPlayAff = (Aff \<notin> set t1History);
                       canPlayNeg = (Neg \<notin> set t1History)
                   in if canPlayAff \<or> canPlayNeg then Some i else None)"])
         (auto simp: Let_def split: option.splits if_splits)
    then show ?thesis by simp
  qed
qed

lemma findBestOpponent_bound:
  "findBestOpponent ts t1 grp = Some (j, sw) \<Longrightarrow> j < length grp"
  using findBestOpponentFrom_bound [of ts t1 grp 0 None j sw] by (simp add: findBestOpponent_def)

lemma mset_removeAt: "i < length xs \<Longrightarrow> add_mset (xs ! i) (mset (removeAt i xs)) = mset xs"
  unfolding removeAt_def
  by (metis add_mset_add_single id_take_nth_drop mset.simps(2) mset_append union_mset_add_mset_right append_Cons append_Nil)


lemma pairGroup_mset:
  "pairGroup ts cn grp pairs floaters = (pairs', floaters') \<Longrightarrow>
     mset (pairedTeams pairs') + mset floaters' = mset (pairedTeams pairs) + mset floaters + mset grp"
proof (induction ts cn grp pairs floaters rule: pairGroup.induct)
  case (1 ts cn pairs floaters)
  then show ?case by simp
next
  case (2 ts cn t1 grp pairs floaters)
  show ?case
  proof (cases "findBestOpponent ts t1 grp")
    case None
    then show ?thesis using 2 by simp
  next
    case (Some r)
    obtain index isSwappable where r: "r = (index, isSwappable)" by (cases r)
    have lt: "index < length grp" using Some r findBestOpponent_bound by blast
    let ?p = "determineSides ts (cn (length pairs)) t1 (grp ! index) isSwappable"
    have "pairGroup ts cn (removeAt index grp) (pairs @ [?p]) floaters = (pairs', floaters')"
      using "2.prems" Some r by simp
    then have "mset (pairedTeams pairs') + mset floaters'
        = mset (pairedTeams (pairs @ [?p])) + mset floaters + mset (removeAt index grp)"
      using "2.IH"(2) [OF Some r [symmetric]] Some r by simp
    also have "\<dots> = mset (pairedTeams pairs) + {#t1, grp ! index#} + mset floaters + mset (removeAt index grp)"
      by (simp only: pairedTeams_snoc)
    also have "\<dots> = mset (pairedTeams pairs) + mset floaters + add_mset t1 (add_mset (grp ! index) (mset (removeAt index grp)))"
      by simp
    also have "\<dots> = mset (pairedTeams pairs) + mset floaters + mset (t1 # grp)"
      by (simp only: mset_removeAt [OF lt]) simp
    finally show ?thesis .
  qed
qed

lemma pairBrackets_mset:
  "pairBrackets ts cn roundNum groups pairs floaters = (pairs', floaters') \<Longrightarrow>
     mset (pairedTeams pairs') + mset floaters'
       = mset (pairedTeams pairs) + mset floaters + mset (concat groups)"
proof (induction groups arbitrary: pairs floaters)
  case Nil
  then show ?case by simp
next
  case (Cons g gs)
  let ?grp = "if roundNum > 2 then sort_by (bracketCmp ts) (g @ floaters) else g @ floaters"
  obtain p1 f1 where pg: "pairGroup ts cn ?grp pairs [] = (p1, f1)" by (cases "pairGroup ts cn ?grp pairs []")
  have "pairBrackets ts cn roundNum gs p1 f1 = (pairs', floaters')"
    using Cons.prems pg by (simp add: Let_def)
  then have "mset (pairedTeams pairs') + mset floaters' = mset (pairedTeams p1) + mset f1 + mset (concat gs)"
    by (rule Cons.IH)
  also have "mset (pairedTeams p1) + mset f1 = mset (pairedTeams pairs) + mset [] + mset ?grp"
    by (rule pairGroup_mset [OF pg])
  also have "mset ?grp = mset g + mset floaters" by (simp add: mset_sort_by)
  finally show ?case by simp
qed

lemma drainFloaters_mset:
  "drainFloaters ts cn floaters pairs = (pairs', bye) \<Longrightarrow>
     mset (pairedTeams pairs') + mset (byeTeams bye) = mset (pairedTeams pairs) + mset floaters"
proof (induction ts cn floaters pairs rule: drainFloaters.induct)
  case (1 ts cn t1 t2 rest pairs)
  then have "mset (pairedTeams pairs') + mset (byeTeams bye)
      = mset (pairedTeams (pairs @ [determineSides ts (cn (length pairs)) t1 t2 False])) + mset rest"
    by simp
  then show ?case by (simp only: pairedTeams_snoc) simp
next
  case (2 ts cn byeTeam pairs)
  then show ?case by (auto simp: byeTeams_def)
next
  case (3 ts cn pairs)
  then show ?case by (auto simp: byeTeams_def)
qed

lemma size_pairedTeams: "length (pairedTeams pairs) = 2 * length pairs"
  by (induction pairs) (auto simp: pairedTeams_def)


lemma length_updateBuchholz: "length (updateBuchholz ts) = length ts"
  by (simp add: updateBuchholz_def)

lemma swissPairs_mset:
  assumes "swissPairs r roundNum ts = (pairs, bye)"
  shows "mset (pairedTeams pairs) + mset (byeTeams bye) = mset [0..<length ts]"
proof -
  let ?sh = "shuffleArray (draw r) [0..<length ts]"
  obtain p f where pb: "pairBrackets ts (coin r) roundNum (scoreGroups ts roundNum ?sh) [] [] = (p, f)"
    by (cases "pairBrackets ts (coin r) roundNum (scoreGroups ts roundNum ?sh) [] []")
  have dr: "drainFloaters ts (coin r) f p = (pairs, bye)"
    using assms pb by (simp add: swissPairs_def Let_def)
  have "mset (pairedTeams pairs) + mset (byeTeams bye) = mset (pairedTeams p) + mset f"
    by (rule drainFloaters_mset [OF dr])
  also have "\<dots> = mset (pairedTeams []) + mset [] + mset (concat (scoreGroups ts roundNum ?sh))"
    by (rule pairBrackets_mset [OF pb])
  also have "\<dots> = mset ?sh" by (simp add: pairedTeams_def mset_scoreGroups)
  also have "\<dots> = mset [0..<length ts]" by (rule mset_shuffleArray)
  finally show ?thesis .
qed

text \<open>
  Claim C2. For every roster, every round number and every outcome of the random draws,
  the Swiss pairing returns (its loops are total functions). Every team, as a position
  in the roster, occurs exactly once among the two sides of the pairs returned and the
  team left over; a team is left over exactly when the number of teams is odd. The team
  left over receives the bye: its score is raised by one and \<open>-1\<close> is appended to its
  opponents. The score and the opponents of every other team, and every field of every
  team other than score, opponents and Buchholz score, are as before the call.
\<close>

theorem swiss_pairing_full_assignment:
  "\<exists>pairs bye ts'. generateSwissPairings r roundNum ts = (pairs, ts')
      \<and> mset (pairedTeams pairs) + mset (byeTeams bye) = mset [0..<length ts]
      \<and> (bye = None) = even (length ts)
      \<and> map score ts' = (case bye of None \<Rightarrow> map score ts
                          | Some b \<Rightarrow> (map score ts)[b := score (ts ! b) + 1])
      \<and> map opponents ts' = (case bye of None \<Rightarrow> map opponents ts
                              | Some b \<Rightarrow> (map opponents ts)[b := opponents (ts ! b) @ [- 1]])
      \<and> map (\<lambda>t. t\<lparr>score := 0, opponents := [], buchholz := 0\<rparr>) ts'
          = map (\<lambda>t. t\<lparr>score := 0, opponents := [], buchholz := 0\<rparr>) ts"
proof -
  let ?us = "updateBuchholz ts"
  obtain pairs bye where sp: "swissPairs r roundNum ?us = (pairs, bye)"
    by (cases "swissPairs r roundNum ?us")
  have g: "generateSwissPairings r roundNum ts = (pairs, awardBye bye ?us)"
    using sp by (simp add: generateSwissPairings_def Let_def)
  have m: "mset (pairedTeams pairs) + mset (byeTeams bye) = mset [0..<length ts]"
    using swissPairs_mset [OF sp] by (simp add: length_updateBuchholz)
  have "size (mset (pairedTeams pairs) + mset (byeTeams bye)) = size (mset [0..<length ts])"
    by (simp only: m)
  then have sz: "2 * length pairs + length (byeTeams bye) = length ts"
    by (simp add: size_pairedTeams)
  have e: "(bye = None) = even (length ts)"
  proof (cases bye)
    case None
    then show ?thesis using sz by (simp add: byeTeams_def) presburger
  next
    case (Some b)
    then show ?thesis using sz by (simp add: byeTeams_def) presburger
  qed
  have us: "map score ?us = map score ts" "map opponents ?us = map opponents ts"
      "map (\<lambda>t. t\<lparr>score := 0, opponents := [], buchholz := 0\<rparr>) ?us
          = map (\<lambda>t. t\<lparr>score := 0, opponents := [], buchholz := 0\<rparr>) ts"
    by (simp_all add: updateBuchholz_def o_def)
  have bnd: "\<And>b. bye = Some b \<Longrightarrow> b < length ts"
  proof -
    fix b assume "bye = Some b"
    then have "b \<in># mset (pairedTeams pairs) + mset (byeTeams bye)" by (simp add: byeTeams_def)
    then have "b \<in># mset [0..<length ts]" by (simp only: m)
    then show "b < length ts" by simp
  qed
  have nth_us: "\<And>b. b < length ts \<Longrightarrow> score (?us ! b) = score (ts ! b) \<and> opponents (?us ! b) = opponents (ts ! b)"
    by (simp add: updateBuchholz_def)
  have s: "map score (awardBye bye ?us) = (case bye of None \<Rightarrow> map score ts
                          | Some b \<Rightarrow> (map score ts)[b := score (ts ! b) + 1])"
    using bnd nth_us by (cases bye) (simp_all add: awardBye_def map_modify us)
  have ops: "map opponents (awardBye bye ?us) = (case bye of None \<Rightarrow> map opponents ts
                              | Some b \<Rightarrow> (map opponents ts)[b := opponents (ts ! b) @ [- 1]])"
    using bnd nth_us by (cases bye) (simp_all add: awardBye_def map_modify us)
  have rest: "map (\<lambda>t. t\<lparr>score := 0, opponents := [], buchholz := 0\<rparr>) (awardBye bye ?us)
          = map (\<lambda>t. t\<lparr>score := 0, opponents := [], buchholz := 0\<rparr>) ts"
  proof (cases bye)
    case None then show ?thesis by (simp add: awardBye_def us)
  next
    case (Some b)
    have "map (\<lambda>t. t\<lparr>score := 0, opponents := [], buchholz := 0\<rparr>)
            (modify b (\<lambda>t. t\<lparr>score := score t + 1, opponents := opponents t @ [- 1]\<rparr>) ?us)
          = map (\<lambda>t. t\<lparr>score := 0, opponents := [], buchholz := 0\<rparr>) ?us"
      by (rule map_modify_same) simp
    then show ?thesis using Some by (simp add: awardBye_def us)
  qed
  from g m e s ops rest show ?thesis by blast
qed

section \<open>Proofs: the rebuild of the statistics\<close>

lemma findTeamFrom_cong:
  "map team_id ts = map team_id ts' \<Longrightarrow> findTeamFrom k ts i = findTeamFrom k ts' i"
proof (induction ts arbitrary: ts' k)
  case Nil then show ?case by simp
next
  case (Cons t ts)
  then obtain t' ts'' where "ts' = t' # ts''" by (cases ts') auto
  then show ?case using Cons by auto
qed

lemma findTeam_cong: "map team_id ts = map team_id ts' \<Longrightarrow> findTeam ts i = findTeam ts' i"
  unfolding findTeam_def by (rule findTeamFrom_cong)

lemma findTeamFrom_Some:
  "findTeamFrom k ts i = Some j \<Longrightarrow> \<exists>d. j = k + d \<and> d < length ts \<and> team_id (ts ! d) = i"
proof (induction ts arbitrary: k)
  case Nil then show ?case by simp
next
  case (Cons t ts)
  show ?case
  proof (cases "team_id t = i")
    case True
    then have "j = k + 0 \<and> 0 < length (t # ts) \<and> team_id ((t # ts) ! 0) = i"
      using Cons.prems by simp
    then show ?thesis by blast
  next
    case False
    then have "findTeamFrom (Suc k) ts i = Some j" using Cons.prems by simp
    then obtain d where "j = Suc k + d" "d < length ts" "team_id (ts ! d) = i"
      using Cons.IH by blast
    then have "j = k + Suc d \<and> Suc d < length (t # ts) \<and> team_id ((t # ts) ! Suc d) = i"
      by simp
    then show ?thesis by blast
  qed
qed

lemma findTeam_Some: "findTeam ts i = Some j \<Longrightarrow> j < length ts \<and> team_id (ts ! j) = i"
  using findTeamFrom_Some [of 0 ts i j] by (simp add: findTeam_def)

lemma findTeamFrom_None: "findTeamFrom k ts i = None \<longleftrightarrow> i \<notin> set (map team_id ts)"
  by (induction ts arbitrary: k) auto

lemma findTeam_None: "findTeam ts i = None \<longleftrightarrow> i \<notin> set (map team_id ts)"
  by (simp add: findTeam_def findTeamFrom_None)



lemma replayMatch_found:
  assumes a: "findTeam ts (aff_id m) = Some a" and n: "findTeam ts (neg_id m) = Some n"
  shows "fst (replayMatch m ts) = None"
    and "length (snd (replayMatch m ts)) = length ts"
    and "k < length ts \<Longrightarrow> team_id (snd (replayMatch m ts) ! k) = team_id (ts ! k)"
    and "k < length ts \<Longrightarrow> opponents (snd (replayMatch m ts) ! k)
           = opponents (ts ! k) @ (if k = a then [neg_id m] else []) @ (if k = n then [aff_id m] else [])"
    and "k < length ts \<Longrightarrow> aff_count (snd (replayMatch m ts) ! k)
           = aff_count (ts ! k) + (if k = a then 1 else 0)"
    and "k < length ts \<Longrightarrow> neg_count (snd (replayMatch m ts) ! k)
           = neg_count (ts ! k) + (if k = n then 1 else 0)"
    and "k < length ts \<Longrightarrow> score (snd (replayMatch m ts) ! k)
           = score (ts ! k) + (if result m = Some ''A'' then (if k = a then 1 else 0)
                               else if result m = Some ''N'' then (if k = n then 1 else 0) else 0)"
proof -
  have ia: "team_id (ts ! a) = aff_id m" and la: "a < length ts" using findTeam_Some [OF a] by auto
  have "team_id (ts ! n) = neg_id m" and ln: "n < length ts" using findTeam_Some [OF n] by auto
  note ids = ia \<open>team_id (ts ! n) = neg_id m\<close>
  show "fst (replayMatch m ts) = None" by (simp add: replayMatch_def a n Let_def)
  show "length (snd (replayMatch m ts)) = length ts" by (simp add: replayMatch_def a n Let_def)
  show "k < length ts \<Longrightarrow> team_id (snd (replayMatch m ts) ! k) = team_id (ts ! k)"
    by (simp add: replayMatch_def a n Let_def nth_modify)
  show "k < length ts \<Longrightarrow> opponents (snd (replayMatch m ts) ! k)
           = opponents (ts ! k) @ (if k = a then [neg_id m] else []) @ (if k = n then [aff_id m] else [])"
    by (simp add: replayMatch_def a n Let_def nth_modify ids)
  show "k < length ts \<Longrightarrow> aff_count (snd (replayMatch m ts) ! k)
           = aff_count (ts ! k) + (if k = a then 1 else 0)"
    by (simp add: replayMatch_def a n Let_def nth_modify)
  show "k < length ts \<Longrightarrow> neg_count (snd (replayMatch m ts) ! k)
           = neg_count (ts ! k) + (if k = n then 1 else 0)"
    by (simp add: replayMatch_def a n Let_def nth_modify)
  show "k < length ts \<Longrightarrow> score (snd (replayMatch m ts) ! k)
           = score (ts ! k) + (if result m = Some ''A'' then (if k = a then 1 else 0)
                               else if result m = Some ''N'' then (if k = n then 1 else 0) else 0)"
    by (simp add: replayMatch_def a n Let_def nth_modify)
qed


lemma map_team_id_eqI:
  "length ts' = length ts \<Longrightarrow> (\<And>k. k < length ts \<Longrightarrow> team_id (ts' ! k) = team_id (ts ! k))
     \<Longrightarrow> map team_id ts' = map team_id ts"
  by (simp add: list_eq_iff_nth_eq)

lemma resolvable_found:
  "resolvable ts m \<Longrightarrow> \<exists>a n. findTeam ts (aff_id m) = Some a \<and> findTeam ts (neg_id m) = Some n"
  using findTeam_None [of ts "aff_id m"] findTeam_None [of ts "neg_id m"]
  by (auto simp: resolvable_def)

lemma resolvable_cong: "map team_id ts' = map team_id ts \<Longrightarrow> resolvable ts' m = resolvable ts m"
  by (simp add: resolvable_def)

lemma idsOk_cong: "map team_id ts' = map team_id ts \<Longrightarrow> idsOk ts' = idsOk ts"
  by (simp add: idsOk_def)

lemma replayMatch_step:
  assumes ok: "idsOk ts" and res: "resolvable ts m" and cb: "list_all cleanBalanced ts"
  shows "fst (replayMatch m ts) = None"
    and "map team_id (snd (replayMatch m ts)) = map team_id ts"
    and "list_all cleanBalanced (snd (replayMatch m ts))"
    and "\<forall>k<length ts. score (snd (replayMatch m ts) ! k)
           = score (ts ! k) + (if winsMatch (team_id (ts ! k)) m then 1 else 0)"
proof -
  obtain a n where a: "findTeam ts (aff_id m) = Some a" and n: "findTeam ts (neg_id m) = Some n"
    using resolvable_found [OF res] by blast
  note eff = replayMatch_found [OF a n]
  have ia: "team_id (ts ! a) = aff_id m" "a < length ts" using findTeam_Some [OF a] by auto
  have inn: "team_id (ts ! n) = neg_id m" "n < length ts" using findTeam_Some [OF n] by auto
  have d: "distinct (map team_id ts)" and nb: "(- 1) \<notin> set (map team_id ts)"
    using ok by (auto simp: idsOk_def)
  have ka: "\<And>k. k < length ts \<Longrightarrow> (k = a) = (team_id (ts ! k) = aff_id m)"
    using nth_eq_iff_index_eq [OF d, of _ a] ia by auto
  have kn: "\<And>k. k < length ts \<Longrightarrow> (k = n) = (team_id (ts ! k) = neg_id m)"
    using nth_eq_iff_index_eq [OF d, of _ n] inn by auto
  have na: "aff_id m \<noteq> - 1" "neg_id m \<noteq> - 1"
    using nb ia inn by (metis length_map nth_map nth_mem)+
  show "fst (replayMatch m ts) = None" by (rule eff(1))
  show "map team_id (snd (replayMatch m ts)) = map team_id ts"
    by (rule map_team_id_eqI) (simp_all add: eff)
  show "list_all cleanBalanced (snd (replayMatch m ts))"
    unfolding list_all_length
  proof (intro allI impI)
    fix k assume "k < length (snd (replayMatch m ts))"
    then have k: "k < length ts" by (simp add: eff)
    then have "cleanBalanced (ts ! k)" using cb by (simp add: list_all_length)
    then show "cleanBalanced (snd (replayMatch m ts) ! k)"
      using na by (auto simp: cleanBalanced_def eff(4,5,6) [OF k])
  qed
  show "\<forall>k<length ts. score (snd (replayMatch m ts) ! k)
           = score (ts ! k) + (if winsMatch (team_id (ts ! k)) m then 1 else 0)"
  proof (intro allI impI)
    fix k assume k: "k < length ts"
    show "score (snd (replayMatch m ts) ! k)
           = score (ts ! k) + (if winsMatch (team_id (ts ! k)) m then 1 else 0)"
      by (auto simp: eff(7) [OF k] ka [OF k] kn [OF k] winsMatch_def)
  qed
qed

lemma replayAll_props:
  assumes "idsOk ts" "list_all (resolvable ts) ms" "list_all cleanBalanced ts"
  shows "fst (replayAll ms ts) = None
       \<and> map team_id (snd (replayAll ms ts)) = map team_id ts
       \<and> list_all cleanBalanced (snd (replayAll ms ts))
       \<and> (\<forall>k<length ts. score (snd (replayAll ms ts) ! k)
             = score (ts ! k) + int (length (filter (winsMatch (team_id (ts ! k))) ms)))"
  using assms
proof (induction ms arbitrary: ts)
  case Nil
  then show ?case by simp
next
  case (Cons m ms)
  let ?ts = "snd (replayMatch m ts)"
  have res: "resolvable ts m" using Cons.prems(2) by simp
  note st = replayMatch_step [OF Cons.prems(1) res Cons.prems(3)]
  have ra: "replayAll (m # ms) ts = replayAll ms ?ts"
    using st(1) by (cases "replayMatch m ts") auto
  have ok: "idsOk ?ts" using Cons.prems(1) idsOk_cong [OF st(2)] by simp
  have rs: "list_all (resolvable ?ts) ms"
    using Cons.prems(2) by (simp add: list_all_iff resolvable_cong [OF st(2)])
  note ih = Cons.IH [OF ok rs st(3)]
  have len: "length ?ts = length ts" using st(2) by (metis length_map)
  have "\<forall>k<length ts. score (snd (replayAll ms ?ts) ! k)
             = score (ts ! k) + int (length (filter (winsMatch (team_id (ts ! k))) (m # ms)))"
  proof (intro allI impI)
    fix k assume k: "k < length ts"
    have tid: "team_id (?ts ! k) = team_id (ts ! k)"
      using st(2) k by (metis length_map nth_map len)
    have "score (snd (replayAll ms ?ts) ! k)
            = score (?ts ! k) + int (length (filter (winsMatch (team_id (?ts ! k))) ms))"
      using ih k len by simp
    then show "score (snd (replayAll ms ?ts) ! k)
             = score (ts ! k) + int (length (filter (winsMatch (team_id (ts ! k))) (m # ms)))"
      using st(4) k by (simp add: tid)
  qed
  then show ?case using ih st(2) by (simp only: ra)
qed


lemma cleanBalanced_resetStats: "cleanBalanced (resetStats t)"
  by (simp add: cleanBalanced_def resetStats_def)

lemma updateBuchholz_nth:
  "k < length ts \<Longrightarrow> updateBuchholz ts ! k = (ts ! k)\<lparr>buchholz := buchholz (updateBuchholz ts ! k)\<rparr>"
  by (simp add: updateBuchholz_def)

lemma map_team_id_updateBuchholz: "map team_id (updateBuchholz ts) = map team_id ts"
  by (simp add: updateBuchholz_def)

lemma list_all_updateBuchholz:
  assumes "\<And>t b. P (t\<lparr>buchholz := b\<rparr>) = P t"
  shows "list_all P (updateBuchholz ts) = list_all P ts"
  by (simp add: updateBuchholz_def list_all_iff assms)

lemma length_filter_sort_key: "length (filter P (sort_key f xs)) = length (filter P xs)"
  by (metis mset_filter mset_sort size_mset)

lemma recalculateStats_wellFormed:
  assumes "wellFormed s"
  shows "\<exists>ts. recalculateStats s
           = (Inr (), s\<lparr>teams := ts,
                         current_round := updateCurrentRound (matches s) [1..num_rounds (cfg s)] (current_round s)\<rparr>)
         \<and> map team_id ts = map team_id (teams s)
         \<and> list_all cleanBalanced ts
         \<and> list_all (fromRecords (matches s)) ts"
proof -
  let ?ms = "sort_key round_num (matches s)"
  let ?ts0 = "map resetStats (teams s)"
  have ids0: "map team_id ?ts0 = map team_id (teams s)" by (simp add: resetStats_def)
  have ok: "idsOk ?ts0" using assms idsOk_cong [OF ids0] by (simp add: wellFormed_def)
  have rs: "list_all (resolvable ?ts0) ?ms"
    using assms by (simp add: wellFormed_def list_all_iff resolvable_cong [OF ids0])
  have cb: "list_all cleanBalanced ?ts0" by (simp add: list_all_iff cleanBalanced_resetStats)
  note p = replayAll_props [OF ok rs cb]
  let ?ts1 = "snd (replayAll ?ms ?ts0)"
  have len: "length ?ts1 = length (teams s)" using p ids0 by (metis length_map)
  have run: "recalculateStats s
           = (Inr (), s\<lparr>teams := updateBuchholz ?ts1,
                         current_round := updateCurrentRound (matches s) [1..num_rounds (cfg s)] (current_round s)\<rparr>)"
    using p by (cases "replayAll ?ms ?ts0") (simp add: recalculateStats_def Let_def)
  have ids: "map team_id (updateBuchholz ?ts1) = map team_id (teams s)"
    using p ids0 by (simp add: map_team_id_updateBuchholz)
  have cbu: "list_all cleanBalanced (updateBuchholz ?ts1)"
    using p by (simp add: list_all_updateBuchholz cleanBalanced_def)
  have "list_all (fromRecords (matches s)) ?ts1"
    unfolding list_all_length
  proof (intro allI impI)
    fix k assume "k < length ?ts1"
    then have k: "k < length (teams s)" using len by simp
    have tid: "team_id (?ts1 ! k) = team_id (teams s ! k)"
      using p ids0 k len by (metis length_map nth_map)
    have "score (?ts1 ! k) = score (?ts0 ! k) + int (length (filter (winsMatch (team_id (?ts0 ! k))) ?ms))"
      using p k by simp
    then have sc: "score (?ts1 ! k) = int (length (filter (winsMatch (team_id (teams s ! k))) (matches s)))"
      using k by (simp add: resetStats_def length_filter_sort_key)
    have "cleanBalanced (?ts1 ! k)" using p k len by (simp add: list_all_length)
    then show "fromRecords (matches s) (?ts1 ! k)"
      using sc by (simp add: fromRecords_def cleanBalanced_def tid)
  qed
  then have fr: "list_all (fromRecords (matches s)) (updateBuchholz ?ts1)"
    by (simp add: list_all_updateBuchholz fromRecords_def)
  from run ids cbu fr show ?thesis by blast
qed

section \<open>Proofs: the head-to-head loop\<close>

lemma fold_totalSims:
  assumes "\<And>x acc. f x (acc\<lparr>totalSims := k\<rparr>) = (f x acc)\<lparr>totalSims := k\<rparr>"
  shows "fold f xs (st\<lparr>totalSims := k\<rparr>) = (fold f xs st)\<lparr>totalSims := k\<rparr>"
  by (induction xs arbitrary: st) (simp_all add: assms)

lemma recordMatchup_totalSims:
  "recordMatchup tr a b (st\<lparr>totalSims := k\<rparr>) = (recordMatchup tr a b st)\<lparr>totalSims := k\<rparr>"
  by (simp add: recordMatchup_def)

lemma scanTournament_totalSims:
  "scanTournament hA hB tms (st\<lparr>totalSims := k\<rparr>) = (scanTournament hA hB tms st)\<lparr>totalSims := k\<rparr>"
  unfolding scanTournament_def Let_def
proof (rule fold_totalSims)
  fix x acc
  have "fold (recordMatchup (length hA) x) (filter (hasPrefix hB) tms) (acc\<lparr>totalSims := k\<rparr>)
        = (fold (recordMatchup (length hA) x) (filter (hasPrefix hB) tms) acc)\<lparr>totalSims := k\<rparr>"
    by (rule fold_totalSims) (rule recordMatchup_totalSims)
  then show "(if length (opponentHistory x) \<le> length hA then acc\<lparr>totalSims := k\<rparr>
              else fold (recordMatchup (length hA) x) (filter (hasPrefix hB) tms) (acc\<lparr>totalSims := k\<rparr>))
           = (if length (opponentHistory x) \<le> length hA then acc
              else fold (recordMatchup (length hA) x) (filter (hasPrefix hB) tms) acc)\<lparr>totalSims := k\<rparr>"
    by simp
qed

lemma fold_upt_add:
  "fold f [0..<n + m] s = fold (\<lambda>i. f (n + i)) [0..<m] (fold f [0..<n] s)"
  by (induction m) simp_all

lemma runBatch_afterTournaments:
  "runBatch rt hA hB (afterTournaments rt hA hB n) = afterTournaments rt hA hB (n + batchSize)"
proof -
  let ?f = "\<lambda>i acc. scanTournament hA hB (rt i) acc"
  let ?g = "\<lambda>i acc. scanTournament hA hB (rt (n + i)) acc"
  let ?init = "\<lparr>totalSims = 0, matchupCount = 0, teamAWins = 0, teamBWins = 0,
                 teamARanks = [], teamBRanks = []\<rparr>"
  have 1: "fold ?g [0..<batchSize] ((fold ?f [0..<n] ?init)\<lparr>totalSims := n\<rparr>)
        = (fold ?g [0..<batchSize] (fold ?f [0..<n] ?init))\<lparr>totalSims := n\<rparr>"
    by (rule fold_totalSims) (rule scanTournament_totalSims)
  have 2: "fold ?g [0..<batchSize] (fold ?f [0..<n] ?init) = fold ?f [0..<n + batchSize] ?init"
    by (rule fold_upt_add [symmetric])
  have "runBatch rt hA hB (afterTournaments rt hA hB n)
        = (fold ?g [0..<batchSize] ((fold ?f [0..<n] ?init)\<lparr>totalSims := n\<rparr>))\<lparr>totalSims := n + batchSize\<rparr>"
    by (simp only: runBatch_def afterTournaments_def Let_def) simp
  also have "\<dots> = (fold ?f [0..<n + batchSize] ?init)\<lparr>totalSims := n + batchSize\<rparr>"
    by (simp only: 1 2) simp
  finally show ?thesis by (simp only: afterTournaments_def)
qed



lemma totalSims_afterTournaments: "totalSims (afterTournaments rt hA hB n) = n"
  by (simp add: afterTournaments_def)

lemma h2hLoop_invariant:
  assumes "st = afterTournaments rt hA hB (totalSims st)" "batchSize dvd totalSims st"
  shows "h2hLoop rt hA hB minM mx st = afterTournaments rt hA hB (totalSims (h2hLoop rt hA hB minM mx st))
         \<and> batchSize dvd totalSims (h2hLoop rt hA hB minM mx st)
         \<and> (minM \<le> int (matchupCount (h2hLoop rt hA hB minM mx st))
            \<or> mx \<le> int (totalSims (h2hLoop rt hA hB minM mx st)))"
  using assms
proof (induction rt hA hB minM mx st rule: h2hLoop.induct)
  case (1 rt hA hB minM mx st)
  show ?case
  proof (cases "int (totalSims st) < mx \<and> int (matchupCount st) < minM")
    case True
    have t: "totalSims (runBatch rt hA hB st) = totalSims st + batchSize"
      by (simp add: runBatch_def Let_def)
    have "runBatch rt hA hB (afterTournaments rt hA hB (totalSims st))
            = afterTournaments rt hA hB (totalSims st + batchSize)"
      by (rule runBatch_afterTournaments)
    then have "runBatch rt hA hB st = afterTournaments rt hA hB (totalSims st + batchSize)"
      using "1.prems"(1) by metis
    then have a: "runBatch rt hA hB st = afterTournaments rt hA hB (totalSims (runBatch rt hA hB st))"
      by (simp only: totalSims_afterTournaments)
    have b: "batchSize dvd totalSims (runBatch rt hA hB st)"
      using "1.prems"(2) by (simp only: t) simp
    have unf: "h2hLoop rt hA hB minM mx st = h2hLoop rt hA hB minM mx (runBatch rt hA hB st)"
      using True h2hLoop.simps [of rt hA hB minM mx st] by simp
    show ?thesis
      using "1.IH" [OF True a b] by (simp only: unf)
  next
    case False
    have unf: "h2hLoop rt hA hB minM mx st = st"
      using False h2hLoop.simps [of rt hA hB minM mx st] by metis
    from False have "minM \<le> int (matchupCount st) \<or> mx \<le> int (totalSims st)" by linarith
    then show ?thesis using "1.prems" by (simp only: unf)
  qed
qed


text \<open>
  Claim C9. The head-to-head simulation is a total function of the tournaments it is
  given, so it returns on every input. At return the matchup count has reached
  \<^verbatim>\<open>minMatchups\<close> or the number of simulated tournaments has reached the maximum; the
  number of tournaments is a multiple of the batch size of 100; and the counters
  returned are those of exactly the tournaments that were run.
\<close>

theorem head_to_head_stops:
  "(minMatchups \<le> int (matchupCount (runHeadToHeadSimulation rt hA hB minMatchups maxSimulations))
      \<or> maxSims maxSimulations \<le> int (totalSims (runHeadToHeadSimulation rt hA hB minMatchups maxSimulations)))
   \<and> batchSize dvd totalSims (runHeadToHeadSimulation rt hA hB minMatchups maxSimulations)
   \<and> runHeadToHeadSimulation rt hA hB minMatchups maxSimulations
       = afterTournaments rt hA hB (totalSims (runHeadToHeadSimulation rt hA hB minMatchups maxSimulations))"
proof -
  let ?init = "\<lparr>totalSims = 0, matchupCount = 0, teamAWins = 0, teamBWins = 0,
                 teamARanks = [], teamBRanks = []\<rparr>"
  have a: "?init = afterTournaments rt hA hB (totalSims ?init)"
    by (simp add: afterTournaments_def)
  have b: "batchSize dvd totalSims ?init" by simp
  show ?thesis
    unfolding runHeadToHeadSimulation_def
    using h2hLoop_invariant [OF a b, of minMatchups "maxSims maxSimulations"] by blast
qed

section \<open>Proofs: participant standings\<close>

lemma participantCmp_rankedBefore:
  "(participantCmp lc a b \<le> 0) = rankedBefore lc a b"
  by (auto simp: participantCmp_def rankedBefore_def numSub_def)

lemma sorted_hd_Min: "sorted ys \<Longrightarrow> ys \<noteq> [] \<Longrightarrow> hd ys = Min (set ys)"
  by (cases ys) (auto intro!: Min_eqI [symmetric])

lemma sorted_last_Max: "sorted ys \<Longrightarrow> ys \<noteq> [] \<Longrightarrow> last ys = Max (set ys)"
  by (induction ys rule: rev_induct) (auto simp: sorted_append intro!: Max_eqI [symmetric])

lemma sort_ends:
  fixes xs :: "rat list"
  assumes "2 \<le> length xs"
  shows "sort xs = Min (set xs) # sliceEnds 1 (sort xs) @ [Max (set xs)]"
proof -
  let ?ys = "sort xs"
  have len: "2 \<le> length ?ys" using assms by simp
  then obtain a zs where ys: "?ys = a # zs" "zs \<noteq> []"
    by (cases ?ys) (auto simp: Suc_le_eq)
  then obtain ms b where zs: "zs = ms @ [b]" by (metis rev_exhaust)
  have ne: "?ys \<noteq> []" using ys by simp
  have "a = hd ?ys" "b = last ?ys" using ys zs by simp_all
  then have "a = Min (set xs)" "b = Max (set xs)"
    using sorted_hd_Min [OF _ ne] sorted_last_Max [OF _ ne] by simp_all
  moreover have "sliceEnds 1 ?ys = ms" unfolding ys zs by (simp add: sliceEnds_def)
  ultimately show ?thesis using ys zs by simp
qed

lemma kept_props:
  fixes xs :: "rat list"
  assumes "2 \<le> length xs"
  shows "sorted (sliceEnds 1 (sort xs))"
    and "mset (sliceEnds 1 (sort xs)) + {#Min (set xs), Max (set xs)#} = mset xs"
    and "sum_list (sliceEnds 1 (sort xs)) = sum_list xs - Min (set xs) - Max (set xs)"
    and "set (sliceEnds 1 (sort xs)) \<subseteq> set xs"
proof -
  note e = sort_ends [OF assms]
  have "sorted (Min (set xs) # sliceEnds 1 (sort xs) @ [Max (set xs)])"
    using e sorted_sort [of xs] by simp
  then show "sorted (sliceEnds 1 (sort xs))" by (simp add: sorted_append)
  have "mset (sort xs) = mset (Min (set xs) # sliceEnds 1 (sort xs) @ [Max (set xs)])"
    using e by simp
  then show m: "mset (sliceEnds 1 (sort xs)) + {#Min (set xs), Max (set xs)#} = mset xs"
    by simp
  have "sum_list (sort xs) = sum_list (Min (set xs) # sliceEnds 1 (sort xs) @ [Max (set xs)])"
    using e by simp
  moreover have "sum_list (sort xs) = sum_list xs" by (metis mset_sort sum_mset_sum_list)
  ultimately show "sum_list (sliceEnds 1 (sort xs)) = sum_list xs - Min (set xs) - Max (set xs)"
    by simp
  have "set (sort xs) = set (Min (set xs) # sliceEnds 1 (sort xs) @ [Max (set xs)])"
    using e by simp
  then show "set (sliceEnds 1 (sort xs)) \<subseteq> set xs" by auto
qed

lemma halves_exact:
  assumes h: "\<forall>x\<in>set xs. \<exists>n::nat. x = of_nat n / 2" and b: "sum_list xs < 2 ^ 52"
  shows "sumPoints xs = sum_list xs"
proof (rule sumPoints_exact [where k = "- 1"])
  show "\<forall>x\<in>set xs. \<exists>n::nat. x = of_nat n * 2 powi (- 1)"
    using h by (simp add: power_int_minus field_simps)
  show "sum_list xs < 2 ^ 53 * 2 powi (- 1)" using b by (simp add: power_int_minus)
qed

lemma adjustedFor_drop1_exact:
  assumes h: "\<forall>x\<in>set xs. \<exists>n::nat. x = of_nat n / 2" and b: "sum_list xs < 2 ^ 52"
  shows "adjustedFor ''drop-1'' xs =
     (if 3 \<le> length xs then sum_list xs - Min (set xs) - Max (set xs) else sum_list xs)"
proof (cases "3 \<le> length xs")
  case False
  then show ?thesis using halves_exact [OF h b] by (simp add: adjustedFor_def)
next
  case True
  then have l: "2 \<le> length xs" by simp
  note k = kept_props [OF l]
  have nn: "\<forall>x\<in>set xs. 0 \<le> x" using h by auto
  have xne: "xs \<noteq> []" using True by auto
  have "Min (set xs) \<in> set xs" "Max (set xs) \<in> set xs" using xne by simp_all
  then have "0 \<le> Min (set xs)" "0 \<le> Max (set xs)" using nn by blast+
  then have "sum_list (sliceEnds 1 (sort xs)) < 2 ^ 52" using k(3) b by simp
  moreover have "\<forall>x\<in>set (sliceEnds 1 (sort xs)). \<exists>n::nat. x = of_nat n / 2"
    using h k(4) by blast
  ultimately have "sumPoints (sliceEnds 1 (sort xs)) = sum_list (sliceEnds 1 (sort xs))"
    by (intro halves_exact)
  then show ?thesis using True k(3) by (simp add: adjustedFor_def)
qed

lemma adjustedFor_drop1:
  "adjustedFor ''drop-1'' xs =
     (if 3 \<le> length xs then sumPoints (sliceEnds 1 (sort xs)) else sumPoints xs)"
  by (simp add: adjustedFor_def)

lemma memberPoints_chain:
  "memberPoints s t i =
     map the (filter (\<lambda>v. v \<noteq> None)
                (map (\<lambda>e. nth_opt (entry_points e) i)
                     (filter (\<lambda>e. entry_round e \<le> num_prelim_rounds (cfg s)) (speaker_points_history t))))"
proof -
  have "\<And>f xs. concat (map (\<lambda>e. case f e of None \<Rightarrow> [] | Some p \<Rightarrow> [p]) xs)
            = map the (filter (\<lambda>v. v \<noteq> None) (map f xs))"
  proof -
    fix f :: "'a \<Rightarrow> 'b option" and xs
    show "concat (map (\<lambda>e. case f e of None \<Rightarrow> [] | Some p \<Rightarrow> [p]) xs)
            = map the (filter (\<lambda>v. v \<noteq> None) (map f xs))"
      by (induction xs) (auto split: option.splits)
  qed
  then show ?thesis by (simp add: memberPoints_def)
qed

lemma concat_if_filter:
  assumes "\<And>x. h (r x) = k x" and "\<And>x. P (k x) = (\<not> c x)"
  shows "map h (concat (map (\<lambda>x. if c x then [] else [r x]) xs)) = filter P (map k xs)"
  by (induction xs) (simp_all add: assms)

lemma map_enumerate_nth:
  "map (\<lambda>(i, x). f i x) (enumerate 0 xs) = map (\<lambda>i. f i (xs ! i)) [0..<length xs]"
  by (rule nth_equalityI) (simp_all add: nth_enumerate_eq)

lemma teamParticipants_entries:
  "map (\<lambda>p. (teamId p, memberId p, memberName p, roundScores p)) (teamParticipants method s t)
     = filter (\<lambda>(tid, mid, nm, pts). pts \<noteq> [])
         (map (\<lambda>i. (team_id t, member_id (members t ! i), member_name (members t ! i), memberPoints s t i))
              [0..<length (members t)])"
proof -
  have "map (\<lambda>p. (teamId p, memberId p, memberName p, roundScores p)) (teamParticipants method s t)
      = filter (\<lambda>(tid, mid, nm, pts). pts \<noteq> [])
          (map (\<lambda>(i, mem). (team_id t, member_id mem, member_name mem, memberPoints s t i))
               (enumerate 0 (members t)))"
    unfolding teamParticipants_def Let_def split_def
    by (rule concat_if_filter) simp_all
  also have "map (\<lambda>(i, mem). (team_id t, member_id mem, member_name mem, memberPoints s t i))
               (enumerate 0 (members t))
      = map (\<lambda>i. (team_id t, member_id (members t ! i), member_name (members t ! i), memberPoints s t i))
              [0..<length (members t)]"
    by (rule map_enumerate_nth)
  finally show ?thesis .
qed

lemma teamParticipants_fields:
  "p \<in> set (teamParticipants method s t) \<Longrightarrow>
     totalPoints p = sumPoints (roundScores p) \<and> adjustedScore p = adjustedFor method (roundScores p)"
  by (auto simp: teamParticipants_def Let_def split: if_splits)

text \<open>
  Claim C8 as stated fails for points with one decimal. Two members have the recorded
  points 25, 25.2 and 25.1, in opposite orders of the rounds. The totals are
  75.30000000000001 and 75.3, the adjusted score of both is 25.1, and for neither is
  the adjusted score the total minus the lowest and the highest value, in exact
  arithmetic or in that of the numbers. The member with the larger total is listed
  first, although the recorded values are the same and its name comes second.
\<close>

theorem drop1_rounding:
  "map (\<lambda>p. (memberName p, roundScores p)) (getParticipantStandings compareLength ''drop-1'' roundingManager)
     = [(''Bb'', [25, num (126 / 5), num (251 / 10)]), (''A'', [num (251 / 10), num (126 / 5), 25])]
   \<and> map totalPoints (getParticipantStandings compareLength ''drop-1'' roundingManager)
     = [num (7530000000000001 / 100000000000000), num (753 / 10)]
   \<and> map adjustedScore (getParticipantStandings compareLength ''drop-1'' roundingManager)
     = [num (251 / 10), num (251 / 10)]
   \<and> num (7530000000000001 / 100000000000000) - 25 - num (126 / 5) \<noteq> num (251 / 10)
   \<and> numSub (numSub (num (7530000000000001 / 100000000000000)) 25) (num (126 / 5)) \<noteq> num (251 / 10)
   \<and> num (753 / 10) - 25 - num (126 / 5) \<noteq> num (251 / 10)
   \<and> numSub (numSub (num (753 / 10)) 25) (num (126 / 5)) \<noteq> num (251 / 10)
   \<and> num (753 / 10) < num (7530000000000001 / 100000000000000)
   \<and> compareLength ''A'' ''Bb'' \<le> 0"
proof -
  have 1: "map (\<lambda>p. (memberName p, roundScores p)) (getParticipantStandings compareLength ''drop-1'' roundingManager)
     = [(''Bb'', [25, num (126 / 5), num (251 / 10)]), (''A'', [num (251 / 10), num (126 / 5), 25])]"
    by code_simp
  have 2: "map totalPoints (getParticipantStandings compareLength ''drop-1'' roundingManager)
     = [num (7530000000000001 / 100000000000000), num (753 / 10)]"
    by code_simp
  have 3: "map adjustedScore (getParticipantStandings compareLength ''drop-1'' roundingManager)
     = [num (251 / 10), num (251 / 10)]"
    by code_simp
  have 4: "num (7530000000000001 / 100000000000000) - 25 - num (126 / 5) \<noteq> num (251 / 10)"
    by code_simp
  have 5: "numSub (numSub (num (7530000000000001 / 100000000000000)) 25) (num (126 / 5)) \<noteq> num (251 / 10)"
    by code_simp
  have 6: "num (753 / 10) - 25 - num (126 / 5) \<noteq> num (251 / 10)" by code_simp
  have 7: "numSub (numSub (num (753 / 10)) 25) (num (126 / 5)) \<noteq> num (251 / 10)" by code_simp
  have 8: "num (753 / 10) < num (7530000000000001 / 100000000000000)" by code_simp
  have 9: "compareLength ''A'' ''Bb'' \<le> 0" by code_simp
  from 1 2 3 4 5 6 7 8 9 show ?thesis by blast
qed

text \<open>
  Claim C8, amended. With the method \<^verbatim>\<open>drop-1\<close> the participants returned are, each
  once, the members with at least one point value recorded in a preliminary round, with
  these values in the order of the history of the team. The total of a participant is
  the sum of its values as the numbers add up in that order. With at least three values
  the adjusted score is the sum, in ascending order, of the values left when one lowest
  and one highest value are taken away; otherwise it is the total. When every value is a
  whole number of half points and the exact sum is below \<open>2 ^ 52\<close>, the total is the exact
  sum and the adjusted score is the total minus the lowest and the highest value (with
  at least three values). The list returned is ordered by adjusted score descending,
  then total descending, then name ascending, for every name comparison that is a total
  preorder. The values 24, 27, 30, 25, 26 have total 132 and adjusted score 78.
\<close>

theorem participant_standings_drop1:
  assumes total: "\<forall>a b. localeCompare a b \<le> 0 \<or> localeCompare b a \<le> 0"
      and trans: "\<forall>a b c. localeCompare a b \<le> 0 \<longrightarrow> localeCompare b c \<le> 0 \<longrightarrow> localeCompare a c \<le> 0"
  shows "mset (map (\<lambda>p. (teamId p, memberId p, memberName p, roundScores p))
              (getParticipantStandings localeCompare ''drop-1'' s))
         = mset (filter (\<lambda>(tid, mid, nm, pts). pts \<noteq> [])
             (concat (map (\<lambda>t. map (\<lambda>i. (team_id t, member_id (members t ! i), member_name (members t ! i),
                         map the (filter (\<lambda>v. v \<noteq> None)
                            (map (\<lambda>e. nth_opt (entry_points e) i)
                                 (filter (\<lambda>e. entry_round e \<le> num_prelim_rounds (cfg s))
                                         (speaker_points_history t))))))
                    [0..<length (members t)]) (teams s))))
       \<and> (\<forall>p\<in>set (getParticipantStandings localeCompare ''drop-1'' s).
            totalPoints p = sumPoints (roundScores p)
          \<and> (if 3 \<le> length (roundScores p)
               then \<exists>kept. sorted kept
                      \<and> mset kept + {#Min (set (roundScores p)), Max (set (roundScores p))#} = mset (roundScores p)
                      \<and> adjustedScore p = sumPoints kept
               else adjustedScore p = totalPoints p)
          \<and> ((\<forall>x\<in>set (roundScores p). \<exists>n::nat. x = of_nat n / 2) \<and> sum_list (roundScores p) < 2 ^ 52
                \<longrightarrow> totalPoints p = sum_list (roundScores p)
                  \<and> adjustedScore p =
                      (if 3 \<le> length (roundScores p)
                       then totalPoints p - Min (set (roundScores p)) - Max (set (roundScores p))
                       else totalPoints p)))
       \<and> sorted_wrt (rankedBefore localeCompare) (getParticipantStandings localeCompare ''drop-1'' s)
       \<and> sumPoints [24, 27, 30, 25, 26] = 132
       \<and> adjustedFor ''drop-1'' [24, 27, 30, 25, 26] = 78"
proof -
  let ?h = "\<lambda>p. (teamId p, memberId p, memberName p, roundScores p)"
  have "map ?h (concat (map (teamParticipants ''drop-1'' s) (teams s)))
         = filter (\<lambda>(tid, mid, nm, pts). pts \<noteq> [])
             (concat (map (\<lambda>t. map (\<lambda>i. (team_id t, member_id (members t ! i), member_name (members t ! i),
                         map the (filter (\<lambda>v. v \<noteq> None)
                            (map (\<lambda>e. nth_opt (entry_points e) i)
                                 (filter (\<lambda>e. entry_round e \<le> num_prelim_rounds (cfg s))
                                         (speaker_points_history t))))))
                    [0..<length (members t)]) (teams s)))"
    by (simp add: map_concat filter_concat o_def teamParticipants_entries memberPoints_chain)
  moreover have "mset (map ?h (getParticipantStandings localeCompare ''drop-1'' s))
         = mset (map ?h (concat (map (teamParticipants ''drop-1'' s) (teams s))))"
    by (simp add: getParticipantStandings_def mset_sort_by)
  ultimately have ent: "mset (map (\<lambda>p. (teamId p, memberId p, memberName p, roundScores p))
              (getParticipantStandings localeCompare ''drop-1'' s))
         = mset (filter (\<lambda>(tid, mid, nm, pts). pts \<noteq> [])
             (concat (map (\<lambda>t. map (\<lambda>i. (team_id t, member_id (members t ! i), member_name (members t ! i),
                         map the (filter (\<lambda>v. v \<noteq> None)
                            (map (\<lambda>e. nth_opt (entry_points e) i)
                                 (filter (\<lambda>e. entry_round e \<le> num_prelim_rounds (cfg s))
                                         (speaker_points_history t))))))
                    [0..<length (members t)]) (teams s))))"
    by (simp only:)
  have fields: "\<forall>p\<in>set (getParticipantStandings localeCompare ''drop-1'' s).
            totalPoints p = sumPoints (roundScores p)
          \<and> (if 3 \<le> length (roundScores p)
               then \<exists>kept. sorted kept
                      \<and> mset kept + {#Min (set (roundScores p)), Max (set (roundScores p))#} = mset (roundScores p)
                      \<and> adjustedScore p = sumPoints kept
               else adjustedScore p = totalPoints p)
          \<and> ((\<forall>x\<in>set (roundScores p). \<exists>n::nat. x = of_nat n / 2) \<and> sum_list (roundScores p) < 2 ^ 52
                \<longrightarrow> totalPoints p = sum_list (roundScores p)
                  \<and> adjustedScore p =
                      (if 3 \<le> length (roundScores p)
                       then totalPoints p - Min (set (roundScores p)) - Max (set (roundScores p))
                       else totalPoints p))"
  proof
    fix p assume "p \<in> set (getParticipantStandings localeCompare ''drop-1'' s)"
    then obtain t where "p \<in> set (teamParticipants ''drop-1'' s t)"
      by (auto simp: getParticipantStandings_def set_sort_by)
    then have tp: "totalPoints p = sumPoints (roundScores p)"
        and ad: "adjustedScore p = adjustedFor ''drop-1'' (roundScores p)"
      using teamParticipants_fields by blast+
    let ?xs = "roundScores p"
    have k: "if 3 \<le> length ?xs
               then \<exists>kept. sorted kept
                      \<and> mset kept + {#Min (set ?xs), Max (set ?xs)#} = mset ?xs
                      \<and> adjustedScore p = sumPoints kept
               else adjustedScore p = totalPoints p"
    proof (cases "3 \<le> length ?xs")
      case True
      then have l: "2 \<le> length ?xs" by simp
      have "sorted (sliceEnds 1 (sort ?xs))
              \<and> mset (sliceEnds 1 (sort ?xs)) + {#Min (set ?xs), Max (set ?xs)#} = mset ?xs
              \<and> adjustedScore p = sumPoints (sliceEnds 1 (sort ?xs))"
        using kept_props(1,2) [OF l] ad True by (simp add: adjustedFor_drop1)
      then show ?thesis using True by auto
    next
      case False
      then show ?thesis using ad tp by (simp add: adjustedFor_drop1)
    qed
    have e: "(\<forall>x\<in>set ?xs. \<exists>n::nat. x = of_nat n / 2) \<and> sum_list ?xs < 2 ^ 52
                \<longrightarrow> totalPoints p = sum_list ?xs
                  \<and> adjustedScore p =
                      (if 3 \<le> length ?xs
                       then totalPoints p - Min (set ?xs) - Max (set ?xs)
                       else totalPoints p)"
    proof
      assume a: "(\<forall>x\<in>set ?xs. \<exists>n::nat. x = of_nat n / 2) \<and> sum_list ?xs < 2 ^ 52"
      then have h: "\<forall>x\<in>set ?xs. \<exists>n::nat. x = of_nat n / 2" and b: "sum_list ?xs < 2 ^ 52"
        by simp_all
      have "totalPoints p = sum_list ?xs" using tp halves_exact [OF h b] by simp
      then show "totalPoints p = sum_list ?xs
                  \<and> adjustedScore p =
                      (if 3 \<le> length ?xs
                       then totalPoints p - Min (set ?xs) - Max (set ?xs)
                       else totalPoints p)"
        using ad adjustedFor_drop1_exact [OF h b] by simp
    qed
    from tp k e show "totalPoints p = sumPoints (roundScores p)
          \<and> (if 3 \<le> length (roundScores p)
               then \<exists>kept. sorted kept
                      \<and> mset kept + {#Min (set (roundScores p)), Max (set (roundScores p))#} = mset (roundScores p)
                      \<and> adjustedScore p = sumPoints kept
               else adjustedScore p = totalPoints p)
          \<and> ((\<forall>x\<in>set (roundScores p). \<exists>n::nat. x = of_nat n / 2) \<and> sum_list (roundScores p) < 2 ^ 52
                \<longrightarrow> totalPoints p = sum_list (roundScores p)
                  \<and> adjustedScore p =
                      (if 3 \<le> length (roundScores p)
                       then totalPoints p - Min (set (roundScores p)) - Max (set (roundScores p))
                       else totalPoints p))"
      by (intro conjI)
  qed
  have tot: "\<And>a b. rankedBefore localeCompare a b \<or> rankedBefore localeCompare b a"
    using total by (auto simp: rankedBefore_def)
  have tr: "\<And>a b c. rankedBefore localeCompare a b \<Longrightarrow> rankedBefore localeCompare b c
              \<Longrightarrow> rankedBefore localeCompare a c"
  proof -
    fix a b c
    assume ab: "rankedBefore localeCompare a b" and bc: "rankedBefore localeCompare b c"
    have names: "localeCompare (memberName a) (memberName b) \<le> 0
                  \<Longrightarrow> localeCompare (memberName b) (memberName c) \<le> 0
                  \<Longrightarrow> localeCompare (memberName a) (memberName c) \<le> 0"
      using trans by blast
    from ab bc names show "rankedBefore localeCompare a c"
      unfolding rankedBefore_def by (elim disjE conjE) simp_all
  qed
  have srt: "sorted_wrt (rankedBefore localeCompare) (getParticipantStandings localeCompare ''drop-1'' s)"
    unfolding getParticipantStandings_def
    by (rule sorted_wrt_sort_by [OF tot tr participantCmp_rankedBefore])
  have ex1: "sumPoints [24, 27, 30, 25, 26] = 132" by code_simp
  have ex2: "adjustedFor ''drop-1'' [24, 27, 30, 25, 26] = 78" by code_simp
  show ?thesis by (intro conjI, rule ent, rule fields, rule srt, rule ex1, rule ex2)
qed

lemma example_standings:
  "map (\<lambda>p. (memberName p, roundScores p, totalPoints p, adjustedScore p))
       (getParticipantStandings compareLength ''drop-1'' exampleManager)
     = [(''Member 1'', [24, 27, 30, 25, 26], 132, 78), (''Member 2'', [28, 29], 57, 57)]"
  by code_simp

lemma tie_standings:
  "map (\<lambda>p. (memberName p, roundScores p, totalPoints p, adjustedScore p))
       (getParticipantStandings compareLength ''drop-1'' tieManager)
     = [(''A'', [28, 55 / 2, 26], 163 / 2, 55 / 2), (''Bb'', [55 / 2, 26, 28], 163 / 2, 55 / 2)]"
  by code_simp

theorem participant_standings_drop1_witness:
  "map (\<lambda>p. (memberName p, roundScores p, totalPoints p, adjustedScore p))
       (getParticipantStandings compareLength ''drop-1'' tieManager)
     = [(''A'', [28, 55 / 2, 26], 163 / 2, 55 / 2), (''Bb'', [55 / 2, 26, 28], 163 / 2, 55 / 2)]
   \<and> sorted_wrt (rankedBefore compareLength) (getParticipantStandings compareLength ''drop-1'' tieManager)
   \<and> list_all (\<lambda>p. totalPoints p = sum_list (roundScores p)
                 \<and> adjustedScore p = totalPoints p - Min (set (roundScores p)) - Max (set (roundScores p)))
        (getParticipantStandings compareLength ''drop-1'' tieManager)"
proof -
  let ?R = "getParticipantStandings compareLength ''drop-1'' tieManager"
  have total: "\<forall>a b. compareLength a b \<le> 0 \<or> compareLength b a \<le> 0"
    by (auto simp: compareLength_def)
  have trans: "\<forall>a b c. compareLength a b \<le> 0 \<longrightarrow> compareLength b c \<le> 0 \<longrightarrow> compareLength a c \<le> 0"
    by (auto simp: compareLength_def)
  note th = participant_standings_drop1 [where localeCompare = compareLength and s = tieManager,
      OF total trans]
  have a: "sorted_wrt (rankedBefore compareLength) ?R"
    using th by (elim conjE)
  have f: "\<forall>p\<in>set ?R.
             ((\<forall>x\<in>set (roundScores p). \<exists>n::nat. x = of_nat n / 2) \<and> sum_list (roundScores p) < 2 ^ 52
                \<longrightarrow> totalPoints p = sum_list (roundScores p)
                  \<and> adjustedScore p =
                      (if 3 \<le> length (roundScores p)
                       then totalPoints p - Min (set (roundScores p)) - Max (set (roundScores p))
                       else totalPoints p))"
    using th by blast
  have h1: "\<exists>n::nat. (28::rat) = of_nat n / 2" by (rule exI [of _ 56]) simp
  have h2: "\<exists>n::nat. (55 / 2::rat) = of_nat n / 2" by (rule exI [of _ 55]) simp
  have h3: "\<exists>n::nat. (26::rat) = of_nat n / 2" by (rule exI [of _ 52]) simp
  have b: "list_all (\<lambda>p. totalPoints p = sum_list (roundScores p)
                 \<and> adjustedScore p = totalPoints p - Min (set (roundScores p)) - Max (set (roundScores p))) ?R"
    unfolding list_all_iff
  proof
    fix p assume p: "p \<in> set ?R"
    then have "(memberName p, roundScores p, totalPoints p, adjustedScore p)
                 \<in> set (map (\<lambda>p. (memberName p, roundScores p, totalPoints p, adjustedScore p)) ?R)"
      by simp
    then have rs: "roundScores p = [28, 55 / 2, 26] \<or> roundScores p = [55 / 2, 26, 28]"
      unfolding tie_standings by auto
    then have "(\<forall>x\<in>set (roundScores p). \<exists>n::nat. x = of_nat n / 2) \<and> sum_list (roundScores p) < 2 ^ 52"
      using h1 h2 h3 by auto
    then have "totalPoints p = sum_list (roundScores p)
                  \<and> adjustedScore p =
                      (if 3 \<le> length (roundScores p)
                       then totalPoints p - Min (set (roundScores p)) - Max (set (roundScores p))
                       else totalPoints p)"
      using f p by blast
    moreover have "3 \<le> length (roundScores p)" using rs by auto
    ultimately show "totalPoints p = sum_list (roundScores p)
                 \<and> adjustedScore p = totalPoints p - Min (set (roundScores p)) - Max (set (roundScores p))"
      by simp
  qed
  show ?thesis using tie_standings a b by blast
qed

section \<open>Proofs: the first elimination round\<close>


lemma length_assignSeeds [simp]: "length (assignSeeds i ks ts) = length ts"
  by (induction ks arbitrary: i ts) simp_all









section \<open>Claims settled by running the code\<close>

text \<open>
  Claim C1. \<^verbatim>\<open>current_round\<close> is claimed to be the largest round up to which every
  match is reported, and 0 after \<^verbatim>\<open>updateResult\<close> has cleared the only result of round
  1. The loop of \<^verbatim>\<open>recalculateStats\<close> only ever raises the field: it starts from the
  stored value and stops at the first incomplete round without assigning. With two
  teams, after round 1 is paired and its match reported, \<^verbatim>\<open>current_round\<close> is 1;
  clearing the result leaves the match unreported and \<^verbatim>\<open>current_round\<close> still 1.
\<close>

theorem current_round_stale:
  "pairRound rnd0 1 (init 2 4 0 []) = (Inr [(1, 0)], paired2)
   \<and> reportResult 1 ''A'' None paired2 = (Inr True, reported2)
   \<and> current_round reported2 = 1
   \<and> updateResult 1 None None reported2 = (Inr True, cleared2)
   \<and> map (\<lambda>m. (round_num m, result m)) (matches cleared2) = [(1, None)]
   \<and> current_round cleared2 = 1"
proof -
  have "current_round reported2 = 1" by code_simp
  moreover have "map (\<lambda>m. (round_num m, result m)) (matches cleared2) = [(1, None)]" by code_simp
  moreover have "current_round cleared2 = 1" by code_simp
  ultimately show ?thesis using run_paired2 run_reported2 run_cleared2 by simp
qed

text \<open>
  Claim C3. A validation error of \<^verbatim>\<open>reportResult\<close> is claimed to leave the state
  unchanged. \<^verbatim>\<open>reportResult\<close> assigns \<^verbatim>\<open>match.result\<close> before it calls
  \<^verbatim>\<open>storeSpeakerPoints\<close>, which validates the points: with a point of 31 the call
  fails, the match keeps the result \<^verbatim>\<open>'A'\<close>, the result log has no line for it, and the
  consistency check of the state fails afterwards.
\<close>

theorem reportResult_bad_points_mutates:
  "map result (matches paired2) = [None]
   \<and> fst (reportResult 1 ''A'' (Some badPoints) paired2) = Inl (SpeakerPointsOutOfRange 31)
   \<and> map result (matches (snd (reportResult 1 ''A'' (Some badPoints) paired2))) = [Some ''A'']
   \<and> result_file_content (snd (reportResult 1 ''A'' (Some badPoints) paired2)) = result_file_content paired2
   \<and> teams (snd (reportResult 1 ''A'' (Some badPoints) paired2)) = teams paired2
   \<and> fst (checkConsistency paired2) = Inr ()
   \<and> fst (checkConsistency (snd (reportResult 1 ''A'' (Some badPoints) paired2))) = Inl RedundancyCheckFailed"
proof -
  have 1: "map result (matches paired2) = [None]" by code_simp
  have 2: "fst (reportResult 1 ''A'' (Some badPoints) paired2) = Inl (SpeakerPointsOutOfRange 31)"
    by code_simp
  have 3: "map result (matches (snd (reportResult 1 ''A'' (Some badPoints) paired2))) = [Some ''A'']"
    by code_simp
  have 4: "result_file_content (snd (reportResult 1 ''A'' (Some badPoints) paired2)) = result_file_content paired2"
    by code_simp
  have 5: "teams (snd (reportResult 1 ''A'' (Some badPoints) paired2)) = teams paired2"
    by code_simp
  have 6: "fst (checkConsistency paired2) = Inr ()" by code_simp
  have 7: "fst (checkConsistency (snd (reportResult 1 ''A'' (Some badPoints) paired2))) = Inl RedundancyCheckFailed"
    by code_simp
  from 1 2 3 4 5 6 7 show ?thesis by blast
qed

text \<open>
  Claim C7. In the elimination rounds after the first, the winners of the previous
  round are claimed to be paired two by two in the order of the match records, without
  sorting. After the quarterfinal of eight teams in which the better seed won each match,
  the winners in match order are the seeds 1, 4, 3, 2 (teams 0, 3, 2, 1). The current
  manager pairs seed 1 with seed 4 and seed 3 with seed 2. The older copy in
  \<^verbatim>\<open>docs/manager/tournament.js\<close> sorts the winners by break seed first and pairs seed 1
  with seed 2 and seed 3 with seed 4.
\<close>

theorem docs_elim_pairing_resorts:
  "map (winnerOf (teams qfReported)) (filter (\<lambda>m. round_num m = 1) (matches qfReported))
     = [Some 0, Some 3, Some 2, Some 1]
   \<and> map break_seed (teams qfReported)
     = [Some 1, Some 2, Some 3, Some 4, Some 5, Some 6, Some 7, Some 8]
   \<and> fst (generateElimPairingsBeforeAffNegOrder 2 qfReported) = Inr [(Some 0, Some 3), (Some 2, Some 1)]
   \<and> fst (generateElimPairings rnd0 2 qfReported) = Inr [(3, 0), (1, 2)]
   \<and> fst (generateElimPairings_docs rnd0 2 qfReported) = Inr [(1, 0), (3, 2)]"
proof -
  have 1: "map (winnerOf (teams qfReported)) (filter (\<lambda>m. round_num m = 1) (matches qfReported))
     = [Some 0, Some 3, Some 2, Some 1]" by code_simp
  have 2: "map break_seed (teams qfReported)
     = [Some 1, Some 2, Some 3, Some 4, Some 5, Some 6, Some 7, Some 8]" by code_simp
  have 3: "fst (generateElimPairingsBeforeAffNegOrder 2 qfReported) = Inr [(Some 0, Some 3), (Some 2, Some 1)]"
    by code_simp
  have 4: "fst (generateElimPairings rnd0 2 qfReported) = Inr [(3, 0), (1, 2)]" by code_simp
  have 5: "fst (generateElimPairings_docs rnd0 2 qfReported) = Inr [(1, 0), (3, 2)]" by code_simp
  from 1 2 3 4 5 show ?thesis by blast
qed

section \<open>What \<^verbatim>\<open>pairRound\<close> rejects\<close>

lemma find_None_iff': "find P xs = None \<longleftrightarrow> \<not> list_ex P xs"
  by (induction xs) auto

text \<open>
  The two checks of \<^verbatim>\<open>pairRound\<close>: it throws, leaving the state as it was, when round
  \<open>R\<close> already has a match, or when \<open>R > 2\<close> and a match of a round from 1 to \<open>R - 1\<close>
  is unreported. It has no other check.
\<close>

lemma pairRound_rejects:
  assumes "list_ex (\<lambda>m. round_num m = R) (matches s)
           \<or> (2 < R \<and> list_ex (\<lambda>m. 1 \<le> round_num m \<and> round_num m < R \<and> result m = None) (matches s))"
  shows "\<exists>e. pairRound r R s = (Inl e, s) \<and> (e = RoundAlreadyPaired R \<or> (\<exists>r'. e = RoundNotComplete r'))"
proof (cases "if R > 2 then find (roundIncomplete (matches s)) [1..R - 1] else None")
  case (Some r')
  then show ?thesis by (simp add: pairRound_def)
next
  case None
  have "\<not> (2 < R \<and> list_ex (\<lambda>m. 1 \<le> round_num m \<and> round_num m < R \<and> result m = None) (matches s))"
  proof
    assume a: "2 < R \<and> list_ex (\<lambda>m. 1 \<le> round_num m \<and> round_num m < R \<and> result m = None) (matches s)"
    then obtain m where m: "m \<in> set (matches s)" "1 \<le> round_num m" "round_num m < R" "result m = None"
      by (auto simp: list_ex_iff)
    then have "roundIncomplete (matches s) (round_num m)"
      by (auto simp: roundIncomplete_def list_ex_iff)
    moreover have "round_num m \<in> set [1..R - 1]" using m by simp
    ultimately have "list_ex (roundIncomplete (matches s)) [1..R - 1]"
      by (auto simp: list_ex_iff)
    then show False using None a by (simp add: find_None_iff')
  qed
  with assms have "list_ex (\<lambda>m. round_num m = R) (matches s)" by blast
  then have "filter (\<lambda>m. round_num m = R) (matches s) \<noteq> []"
    by (auto simp: list_ex_iff filter_empty_conv)
  then show ?thesis using None by (simp add: pairRound_def)
qed

lemma pairRound_rejects_example:
  "(\<exists>e. pairRound rnd0 3 paired2 = (Inl e, paired2)
         \<and> (e = RoundAlreadyPaired 3 \<or> (\<exists>r'. e = RoundNotComplete r')))
   \<and> (\<exists>e. pairRound rnd0 1 paired2 = (Inl e, paired2)
         \<and> (e = RoundAlreadyPaired 1 \<or> (\<exists>r'. e = RoundNotComplete r')))"
proof -
  have a: "list_ex (\<lambda>m. round_num m = 3) (matches paired2)
           \<or> (2 < (3::int) \<and> list_ex (\<lambda>m. 1 \<le> round_num m \<and> round_num m < 3 \<and> result m = None) (matches paired2))"
    by code_simp
  have b: "list_ex (\<lambda>m. round_num m = 1) (matches paired2)
           \<or> (2 < (1::int) \<and> list_ex (\<lambda>m. 1 \<le> round_num m \<and> round_num m < 1 \<and> result m = None) (matches paired2))"
    by code_simp
  show ?thesis using pairRound_rejects [OF a, of rnd0] pairRound_rejects [OF b, of rnd0] by blast
qed

text \<open>
  Claim C5. \<^verbatim>\<open>pairRound(R)\<close> is claimed to fail whenever \<open>R\<close> is not the round after the last
  paired one, or is beyond \<^verbatim>\<open>num_rounds\<close>. \<^verbatim>\<open>pairRound\<close> compares \<open>R\<close> with neither. With
  four rounds configured, round 1 paired and reported and rounds 2 and 3 unpaired,
  \<^verbatim>\<open>pairRound(4)\<close> returns a pair and creates a match of round 4; and \<^verbatim>\<open>pairRound(6)\<close>,
  beyond the four rounds, returns normally with no pair.
\<close>

theorem pairRound_out_of_sequence_accepted:
  "num_rounds (cfg reported2) = 4
   \<and> map (\<lambda>m. (match_id m, round_num m)) (matches reported2) = [(1, 1)]
   \<and> fst (pairRound rnd0 4 reported2) = Inr [(0, 1)]
   \<and> map (\<lambda>m. (match_id m, round_num m)) (matches (snd (pairRound rnd0 4 reported2))) = [(1, 1), (2, 4)]
   \<and> fst (pairRound rnd0 6 reported2) = Inr []"
proof -
  have 1: "num_rounds (cfg reported2) = 4" by code_simp
  have 2: "map (\<lambda>m. (match_id m, round_num m)) (matches reported2) = [(1, 1)]" by code_simp
  have 3: "fst (pairRound rnd0 4 reported2) = Inr [(0, 1)]" by code_simp
  have 4: "map (\<lambda>m. (match_id m, round_num m)) (matches (snd (pairRound rnd0 4 reported2))) = [(1, 1), (2, 4)]"
    by code_simp
  have 5: "fst (pairRound rnd0 6 reported2) = Inr []" by code_simp
  from 1 2 3 4 5 show ?thesis by blast
qed

end
